theory Spec2Isabelle
  imports Complex_Main
begin

section \<open>Python values, exceptions and the canonical event model\<close>

text \<open>
  The repository is Python. Strings are \<^typ>\<open>string\<close>; the values that travel through
  dictionaries and through the serialised-data library (decoded tool arguments, provider-wire
  messages) are \<open>pyval\<close>, with a dictionary as an association list in insertion order.
  A float is the real number it stands for. Every exception that a modelled expression can
  raise is a value of \<open>exn\<close> (\<open>ExternalError\<close> stands for whatever a collaborator
  outside the repository raises), and a function that can raise returns \<open>exn + 'a\<close> with
  \<open>Inl\<close> for the raise.
\<close>

datatype pyval =
    PNone
  | PBool bool
  | PInt int
  | PFloat real
  | PStr string
  | PList "pyval list"
  | PDict "(string \<times> pyval) list"

datatype exn =
    ValueError string
  | TypeError string
  | AttributeError string
  | KeyError string
  | ValidationError string
  | TimeoutError
  | ExternalError string

text \<open>Python truthiness, as \<open>if x:\<close> and \<open>x or y\<close> read it.\<close>

fun truthy :: "pyval \<Rightarrow> bool" where
  "truthy PNone = False"
| "truthy (PBool b) = b"
| "truthy (PInt i) = (i \<noteq> 0)"
| "truthy (PFloat r) = (r \<noteq> 0)"
| "truthy (PStr s) = (s \<noteq> [])"
| "truthy (PList xs) = (xs \<noteq> [])"
| "truthy (PDict kvs) = (kvs \<noteq> [])"

text \<open>
  \<open>pepper/llm_client/model.py\<close>: the event classes. The base class fields \<open>id\<close>
  (left at \<open>None\<close> by every constructor call of the modelled code except the two
  classes that redeclare it) and \<open>created_at\<close> (a wall-clock stamp that no modelled
  function reads) are not carried.
\<close>

datatype ToolCall = ToolCall (call_id: string) (call_name: string) (arguments: string)

datatype AssistantMessage =
  AssistantMessage (content: "string option") (tool_calls: "ToolCall list option")
    (finish_reason: "string option")

text \<open>
  \<open>ToolCall\<close> and \<open>AssistantMessage\<close> are event classes whose instances the code also
  handles on their own, so each is a type and has a constructor of \<open>Event\<close> that holds
  it. \<open>ToolCallResult\<close> has the fields \<open>id\<close>, \<open>name\<close> and \<open>result\<close>; every result
  the modelled code builds is a string. \<open>GenericEvent\<close> has \<open>type\<close> and \<open>content\<close>.
\<close>

datatype Event =
    UserMessage string
  | AssistantEvent AssistantMessage
  | ToolCallEvent ToolCall
  | ToolCallResult string "string option" string
  | GenericEvent "string option" pyval
  | SendToUser string
  | Wait string

text \<open>\<open>event.__class__.__name__\<close>\<close>

fun class_name :: "Event \<Rightarrow> string" where
  "class_name (UserMessage _) = ''UserMessage''"
| "class_name (AssistantEvent _) = ''AssistantMessage''"
| "class_name (ToolCallEvent _) = ''ToolCall''"
| "class_name (ToolCallResult _ _ _) = ''ToolCallResult''"
| "class_name (GenericEvent _ _) = ''GenericEvent''"
| "class_name (SendToUser _) = ''SendToUser''"
| "class_name (Wait _) = ''Wait''"

section \<open>Completion router: model-to-provider resolution\<close>

text \<open>\<open>pepper/llm_client/llm_client.py\<close>. The process environment is a map.\<close>

type_synonym environ = "string \<rightharpoonup> string"

definition MODEL_PROVIDERS :: "(string \<times> string) list" where
  "MODEL_PROVIDERS =
    [(''gpt-4'', ''openai''),
     (''gpt-4o'', ''openai''),
     (''gpt-4o-mini'', ''openai''),
     (''gpt-4-turbo'', ''openai''),
     (''gpt-3.5-turbo'', ''openai''),
     (''claude-3-5-sonnet'', ''bedrock''),
     (''claude-3-5-haiku'', ''bedrock''),
     (''claude-3-opus'', ''bedrock''),
     (''claude-3-sonnet'', ''bedrock''),
     (''claude-3-haiku'', ''bedrock''),
     (''claude-3-5-sonnet-direct'', ''anthropic''),
     (''claude-3-5-haiku-direct'', ''anthropic''),
     (''us.anthropic.claude-3-5-sonnet-20241022-v2:0'', ''bedrock''),
     (''us.anthropic.claude-3-5-haiku-20241022-v1:0'', ''bedrock'')]"

text \<open>
  \<open>str.lower()\<close> on the ASCII range: the letters \<open>A\<close> to \<open>Z\<close> become \<open>a\<close> to
  \<open>z\<close> and every other character stays as it is. Python also changes the upper-case
  letters beyond code 127, which this model leaves unchanged; provider names are ASCII.
\<close>

definition lower_char :: "char \<Rightarrow> char" where
  "lower_char c =
    (let n = (of_char c :: nat) in if 65 \<le> n \<and> n \<le> 90 then char_of (n + 32) else c)"

definition lower :: "string \<Rightarrow> string" where
  "lower s = map lower_char s"

text \<open>\<open>os.environ.get(k)\<close> where the code tests it for truth: unset and empty are both false.\<close>

definition environ_get :: "environ \<Rightarrow> string \<Rightarrow> string option" where
  "environ_get environ k = (case environ k of None \<Rightarrow> None | Some v \<Rightarrow> if v = [] then None else Some v)"

definition get_provider_for_model :: "environ \<Rightarrow> string \<Rightarrow> exn + string" where
  "get_provider_for_model environ model =
    (case environ_get environ ''LLM_PROVIDER'' of
       Some override_provider \<Rightarrow> Inr (lower override_provider)
     | None \<Rightarrow>
        (case map_of MODEL_PROVIDERS model of
           Some provider \<Rightarrow> Inr provider
         | None \<Rightarrow>
            if environ_get environ ''OPENAI_API_KEY'' \<noteq> None then Inr ''openai''
            else if environ_get environ ''BEDROCK_API_KEY'' \<noteq> None
                    \<or> environ_get environ ''AWS_API_KEY'' \<noteq> None then Inr ''bedrock''
            else if environ_get environ ''ANTHROPIC_API_KEY'' \<noteq> None then Inr ''anthropic''
            else Inl (ValueError (''Cannot determine provider for model '' @ [CHR 0x27] @ model
                   @ [CHR 0x27] @ ''. Set LLM_PROVIDER env var or configure API keys.''))))"

section \<open>Conversation memory: the state tracker's data and the worker's wire rendering\<close>

text \<open>
  \<open>pepper/services/state_tracker.py\<close>, class \<open>StateTracker\<close>: the attributes set by
  \<open>__init__\<close>. The context-store handle and the summarizer object are the external
  collaborators of a later section.
\<close>

record StateTracker =
  namespace :: "string option"
  len_limit :: nat
  summarize_last_n_events :: nat
  recent_messages :: "string list"
  events :: "Event list"
  summary :: "string option"
  auto_store_every_n_events :: nat
  auto_store_counter :: nat

definition StateTracker_init :: "string option \<Rightarrow> StateTracker" where
  "StateTracker_init ns =
     \<lparr> namespace = ns, len_limit = 100, summarize_last_n_events = 60, recent_messages = [],
       events = [], summary = None, auto_store_every_n_events = 20, auto_store_counter = 0 \<rparr>"


definition WorkerStateTracker_init :: "string option \<Rightarrow> StateTracker" where
  "WorkerStateTracker_init agent_name =
     StateTracker_init
       (case agent_name of None \<Rightarrow> None
        | Some a \<Rightarrow> if a = [] then None else Some (''memory-'' @ a))"

definition opt_str :: "string option \<Rightarrow> pyval" where
  "opt_str s = (case s of None \<Rightarrow> PNone | Some t \<Rightarrow> PStr t)"

text \<open>\<open>WorkerStateTracker._to_openai_format\<close>, the \<open>ToolCall\<close> case.\<close>

definition tool_call_to_openai_format :: "ToolCall \<Rightarrow> pyval" where
  "tool_call_to_openai_format tc =
     PDict [(''id'', PStr (call_id tc)), (''type'', PStr ''function''),
            (''function'', PDict [(''name'', PStr (call_name tc)),
                                  (''arguments'', PStr (arguments tc))])]"

text \<open>
  \<open>WorkerStateTracker._to_openai_format\<close>. The recursive calls on the tool calls of an
  assistant message always take the \<open>ToolCall\<close> case, the list being typed.
\<close>

fun to_openai_format :: "Event \<Rightarrow> exn + pyval" where
  "to_openai_format (AssistantEvent m) =
     Inr (PDict ([(''role'', PStr ''assistant''), (''content'', opt_str (content m))] @
        (case tool_calls m of
           None \<Rightarrow> []
         | Some ts \<Rightarrow>
             if ts = [] then []
             else [(''tool_calls'', PList (map tool_call_to_openai_format ts))])))"
| "to_openai_format (UserMessage c) =
     Inr (PDict [(''role'', PStr ''user''), (''content'', PStr c)])"
| "to_openai_format (ToolCallEvent tc) = Inr (tool_call_to_openai_format tc)"
| "to_openai_format (ToolCallResult i n r) =
     Inr (PDict [(''role'', PStr ''tool''), (''tool_call_id'', PStr i), (''content'', PStr r)])"
| "to_openai_format e = Inl (ValueError (''Unknown event type: '' @ class_name e))"

text \<open>A list comprehension over a function that can raise: the first raise ends it.\<close>

fun map_exn :: "('a \<Rightarrow> exn + 'b) \<Rightarrow> 'a list \<Rightarrow> exn + 'b list" where
  "map_exn f [] = Inr []"
| "map_exn f (x # xs) =
     (case f x of
        Inl e \<Rightarrow> Inl e
      | Inr y \<Rightarrow> (case map_exn f xs of Inl e \<Rightarrow> Inl e | Inr ys \<Rightarrow> Inr (y # ys)))"

text \<open>The property \<open>WorkerStateTracker.messages\<close>.\<close>

definition messages :: "StateTracker \<Rightarrow> exn + pyval list" where
  "messages st = map_exn to_openai_format (events st)"

text \<open>
  The event kinds that the claim about \<open>messages\<close> names as renderable, written from the
  claim's words and compared with the code below.
\<close>

fun wire_kind :: "Event \<Rightarrow> bool" where
  "wire_kind (UserMessage _) = True"
| "wire_kind (AssistantEvent _) = True"
| "wire_kind (ToolCallEvent _) = True"
| "wire_kind (ToolCallResult _ _ _) = True"
| "wire_kind _ = False"

section \<open>Agent loop: draining the inbound queue\<close>

text \<open>
  \<open>asyncio.Queue\<close> as the list of queued items, oldest first. \<open>await queue.get()\<close>
  returns the oldest item at once when one is queued and suspends the caller otherwise;
  a coroutine that is suspended has not returned, which is the value \<open>Suspended\<close>.
  Between \<open>queue.empty()\<close> and the \<open>get\<close> that follows there is no suspension point,
  so no other task runs in between.
\<close>

datatype 'a awaited = Ready 'a | Suspended

definition queue_get :: "'a list \<Rightarrow> ('a \<times> 'a list) awaited" where
  "queue_get q = (case q of [] \<Rightarrow> Suspended | x # q' \<Rightarrow> Ready (x, q'))"


text \<open>The \<open>while\<close> loop of \<open>SchedulerAgent.get_batch_events\<close>.\<close>

function batch_loop :: "nat \<Rightarrow> 'a list \<Rightarrow> 'a list \<Rightarrow> ('a list \<times> 'a list) awaited" where
  "batch_loop max_batch_size evs q =
     (if q \<noteq> [] \<and> length evs < max_batch_size then
        (case queue_get q of
           Suspended \<Rightarrow> Suspended
         | Ready (new_event, q') \<Rightarrow> batch_loop max_batch_size (evs @ [new_event]) q')
      else Ready (evs, q))"
  by pat_completeness auto
termination
  by (relation "measure (\<lambda>(m, evs, q). length q)")
     (auto simp: queue_get_def split: list.splits)

declare batch_loop.simps [simp del]

text \<open>\<open>SchedulerAgent.get_batch_events\<close>: the drained events and the queue left behind.\<close>

definition get_batch_events :: "'a list \<Rightarrow> nat \<Rightarrow> ('a list \<times> 'a list) awaited" where
  "get_batch_events q max_batch_size =
     (case queue_get q of
        Suspended \<Rightarrow> Suspended
      | Ready (first, q') \<Rightarrow> batch_loop max_batch_size [first] q')"

section \<open>External collaborators and the trace of their use\<close>

text \<open>
  The context store, the language-model providers, the summarizer's provider call, the tool
  providers, the clock and the libraries that parse and print serialised data are outside the
  repository. Each is a field of \<open>env\<close>. A collaborator that is asked more than once may
  answer differently each time, so its answers are indexed by \<open>tick\<close>, the number of
  answers the collaborators have given so far; a collaborator that fails answers with an
  exception. \<open>world\<close> carries \<open>tick\<close> and the trace of what the modelled code has sent
  out: the records handed to the store, the completions asked for (with the reply), the
  conversations given to the summarizer, which makes a model call of its own for each (with
  the summary that went with them), the tool calls given to the dispatch layer and the
  provider sessions it opened.
\<close>

datatype context_data =
    AgentStateData "Event list" "string option"
  | PlainData pyval

record StoredContext =
  context_id :: string
  data :: context_data
  context_namespace :: string
  context_type :: string

text \<open>
  What awaiting a coroutine gives: its outcome after some seconds, or nothing ever.
\<close>

datatype 'a timed = Takes real 'a | Forever

text \<open>
  A provider session of \<open>ToolManager.call\<close>: it ends with the texts of the content items
  of the tool result (a text can be \<open>None\<close>) or with an exception whose \<open>str\<close> is given.
\<close>

datatype session_end = ToolContent "string option list" | SessionException string

record env =
  json_loads :: "string \<Rightarrow> exn + pyval"
  json_dumps :: "pyval \<Rightarrow> string"
  py_str :: "pyval \<Rightarrow> string"
  model_dump_json :: "Event \<Rightarrow> string"
  str_float :: "real \<Rightarrow> string"
  time_time :: "nat \<Rightarrow> real"
  utc_now :: "nat \<Rightarrow> string"
  cs_store :: "nat \<Rightarrow> StoredContext \<Rightarrow> exn option"
  cs_query :: "nat \<Rightarrow> string \<Rightarrow> exn + context_data list"
  summarize_conversation :: "nat \<Rightarrow> Event list \<Rightarrow> string option \<Rightarrow> exn + string option"
  create_completion :: "nat \<Rightarrow> pyval list \<Rightarrow> pyval list option \<Rightarrow> exn + AssistantMessage"
  tool_session :: "nat \<Rightarrow> string \<Rightarrow> string \<Rightarrow> pyval \<Rightarrow> session_end timed"
  discover_tools :: "nat \<Rightarrow> exn + pyval list \<times> (string \<rightharpoonup> string \<times> string)"
  user_profile :: "nat \<Rightarrow> exn + pyval"
  WORKER_SYSTEM_PROMPT :: string
  SCHEDULER_SYSTEM_PROMPT :: string

record world =
  tick :: nat
  stored :: "StoredContext list"
  completions :: "(pyval list \<times> AssistantMessage) list"
  summaries :: "(Event list \<times> string option) list"
  dispatched :: "ToolCall list"
  sessions :: "(string \<times> string \<times> pyval) list"

text \<open>
  \<open>json_loads\<close> and \<open>json_dumps\<close> are \<open>json.loads\<close> and \<open>json.dumps\<close>;
  \<open>py_str\<close> is the text an f-string gives a value, \<open>str_float\<close> the text it gives a
  clock reading, \<open>model_dump_json\<close> the method of that name of the event classes;
  \<open>time_time\<close> is \<open>time.time()\<close> and \<open>utc_now\<close> the formatted
  \<open>datetime.now(timezone.utc)\<close>; \<open>cs_store\<close> (\<open>None\<close> when the record is
  accepted) and \<open>cs_query\<close> are the context store; \<open>summarize_conversation\<close> is the
  summarizer, \<open>create_completion\<close> the completion router with the provider behind it,
  \<open>tool_session\<close> a session with a tool provider, \<open>discover_tools\<close> tool discovery and
  \<open>user_profile\<close> the profile service. The two prompts are files of the repository that
  are read when the modules are loaded.

  An exception ends the function that raised it and every caller without a handler.
\<close>

definition bind_exn :: "exn + 'a \<Rightarrow> ('a \<Rightarrow> exn + 'b) \<Rightarrow> exn + 'b" where
  "bind_exn m f = (case m of Inl e \<Rightarrow> Inl e | Inr x \<Rightarrow> f x)"

lemma bind_exn_cong [fundef_cong]:
  "m = m' \<Longrightarrow> (\<And>x. m' = Inr x \<Longrightarrow> f x = f' x) \<Longrightarrow> bind_exn m f = bind_exn m' f'"
  by (cases m') (simp_all add: bind_exn_def)

definition now :: "env \<Rightarrow> world \<Rightarrow> real \<times> world" where
  "now env w = (time_time env (tick w), w\<lparr>tick := Suc (tick w)\<rparr>)"

text \<open>\<open>await context_store.store(...)\<close>\<close>

definition context_store_store :: "env \<Rightarrow> world \<Rightarrow> StoredContext \<Rightarrow> exn + world" where
  "context_store_store env w r =
     (case cs_store env (tick w) r of
        Some e \<Rightarrow> Inl e
      | None \<Rightarrow> Inr (w\<lparr>tick := Suc (tick w), stored := stored w @ [r]\<rparr>))"

section \<open>Conversation memory: retrieval, append with compaction, flush\<close>

text \<open>
  \<open>StateTracker.store_events\<close>. The record identifier is the f-string
  \<open>{self.namespace}_{time.time()}\<close>; the dump of the \<open>AgentState\<close> is its events and
  its summary.
\<close>

definition store_events :: "env \<Rightarrow> StateTracker \<Rightarrow> world \<Rightarrow> exn + world" where
  "store_events env st w =
     (case namespace st of
        None \<Rightarrow> Inr w
      | Some ns \<Rightarrow>
          (let (t, w1) = now env w in
           context_store_store env w1
             \<lparr> context_id = ns @ ''_'' @ str_float env t,
               data = AgentStateData (events st) (summary st),
               context_namespace = ns,
               context_type = ''AgentState'' \<rparr>))"

text \<open>
  \<open>StateTracker.add_event\<close>, in the order of its four blocks: the append, the automatic
  flush, the window of recent user-visible messages, and the compaction.
\<close>

definition auto_store :: "env \<Rightarrow> StateTracker \<Rightarrow> world \<Rightarrow> exn + StateTracker \<times> world" where
  "auto_store env st w =
     (let st1 = st\<lparr>auto_store_counter := auto_store_counter st + 1\<rparr> in
      if auto_store_counter st1 \<ge> auto_store_every_n_events st1 then
        bind_exn (store_events env st1 w) (\<lambda>w1. Inr (st1\<lparr>auto_store_counter := 0\<rparr>, w1))
      else Inr (st1, w))"

definition track_recent :: "StateTracker \<Rightarrow> Event \<Rightarrow> StateTracker" where
  "track_recent st event =
     (case event of
        SendToUser c \<Rightarrow>
          (let rm = recent_messages st @ [c] in
           st\<lparr>recent_messages := (if length rm > 5 then tl rm else rm)\<rparr>)
      | _ \<Rightarrow> st)"

definition compact :: "env \<Rightarrow> StateTracker \<Rightarrow> world \<Rightarrow> exn + StateTracker \<times> world" where
  "compact env st w =
     (if length (events st) > len_limit st then
        bind_exn
          (summarize_conversation env (tick w)
             (take (summarize_last_n_events st) (events st)) (summary st))
          (\<lambda>s. Inr (st\<lparr>summary := s, events := drop (summarize_last_n_events st) (events st)\<rparr>,
                    w\<lparr>tick := Suc (tick w),
                      summaries := summaries w @
                        [(take (summarize_last_n_events st) (events st), summary st)]\<rparr>))
      else Inr (st, w))"

definition add_event :: "env \<Rightarrow> StateTracker \<Rightarrow> world \<Rightarrow> Event \<Rightarrow> exn + StateTracker \<times> world" where
  "add_event env st w event =
     bind_exn (auto_store env (st\<lparr>events := events st @ [event]\<rparr>) w)
       (\<lambda>(st1, w1). compact env (track_recent st1 event) w1)"

text \<open>A sequence of \<open>add_event\<close> calls on one tracker; a call that raises ends it.\<close>

fun add_events :: "env \<Rightarrow> StateTracker \<Rightarrow> world \<Rightarrow> Event list \<Rightarrow> exn + StateTracker \<times> world" where
  "add_events env st w [] = Inr (st, w)"
| "add_events env st w (e # es) =
     bind_exn (add_event env st w e) (\<lambda>(st1, w1). add_events env st1 w1 es)"

text \<open>
  \<open>StateTracker.retrieve_history\<close>. The query is for the tracker's namespace with
  \<open>limit=1\<close>; the record's data must be the dump of an \<open>AgentState\<close>.
\<close>

definition retrieve_history :: "env \<Rightarrow> StateTracker \<Rightarrow> world \<Rightarrow> exn + StateTracker \<times> world" where
  "retrieve_history env st w =
     (case namespace st of
        None \<Rightarrow> Inr (st, w)
      | Some ns \<Rightarrow>
          bind_exn (cs_query env (tick w) ns)
            (\<lambda>latest_state.
               let w1 = w\<lparr>tick := Suc (tick w)\<rparr> in
               if latest_state = [] then Inr (st, w1)
               else
                 (case last latest_state of
                    PlainData d \<Rightarrow> Inl (ValidationError ''AgentState'')
                  | AgentStateData es s \<Rightarrow>
                      Inr (st\<lparr>events := es,
                              summary := (case s of None \<Rightarrow> None
                                          | Some t \<Rightarrow> if t = [] then None else Some t)\<rparr>,
                           w1))))"

section \<open>Tool dispatch layer\<close>

text \<open>
  \<open>pepper/tool/manager.py\<close>. \<open>server_dict\<close> maps a server name to its connection
  parameters; \<open>openai_dispatch\<close> is \<open>None\<close> until discovery has run, and then maps a
  function name to the server and the tool it stands for.
\<close>

record ToolManager =
  server_dict :: "string \<rightharpoonup> string"
  timeout_seconds :: real
  openai_tools :: "pyval list option"
  openai_dispatch :: "(string \<rightharpoonup> string \<times> string) option"

text \<open>
  \<open>asyncio.wait_for\<close>: the outcome of the awaited coroutine when it comes before the
  timeout, \<open>TimeoutError\<close> raised to the awaiting caller when it does not.
\<close>

definition wait_for :: "'a timed \<Rightarrow> real \<Rightarrow> exn + 'a" where
  "wait_for c timeout =
     (case c of Forever \<Rightarrow> Inl TimeoutError
      | Takes d r \<Rightarrow> if d < timeout then Inr r else Inl TimeoutError)"

text \<open>The decorator \<open>with_timeout\<close>: the wrapper awaits the function under \<open>wait_for\<close>.\<close>

definition with_timeout :: "real \<Rightarrow> ('a \<Rightarrow> 'b timed \<times> world) \<Rightarrow> 'a \<Rightarrow> exn + 'b \<times> world" where
  "with_timeout seconds func args =
     (let (c, w) = func args in
      bind_exn (wait_for c seconds) (\<lambda>r. Inr (r, w)))"

text \<open>
  The body of \<open>ToolManager.call\<close>. Everything inside its \<open>try\<close> is the provider
  session; an exception there becomes the dictionary with the key \<open>error\<close>.
\<close>

definition call_body ::
  "env \<Rightarrow> ToolManager \<Rightarrow> world \<Rightarrow> string \<times> string \<times> pyval \<Rightarrow> pyval timed \<times> world" where
  "call_body env tm w = (\<lambda>(server_name, tool_name, args).
     (case server_dict tm server_name of
        None \<Rightarrow>
          (Takes 0 (PDict [(''error'', PStr (''Unknown server '' @ [CHR 0x27] @ server_name
                                              @ [CHR 0x27]))]), w)
      | Some params \<Rightarrow>
          (let w1 = w\<lparr>tick := Suc (tick w),
                      sessions := sessions w @ [(server_name, tool_name, args)]\<rparr> in
           case tool_session env (tick w) server_name tool_name args of
             Forever \<Rightarrow> (Forever, w1)
           | Takes d (SessionException msg) \<Rightarrow> (Takes d (PDict [(''error'', PStr msg)]), w1)
           | Takes d (ToolContent texts) \<Rightarrow>
               (let result_text =
                      (if texts = [] then ''''
                       else (case last texts of None \<Rightarrow> '''' | Some t \<Rightarrow> t)) in
                (Takes d (PDict [(''server_name'', PStr server_name),
                                 (''tool_name'', PStr tool_name),
                                 (''result'', PStr result_text)]), w1)))))"

text \<open>
  \<open>ToolManager.call\<close>, decorated with \<open>@with_timeout(900)\<close>: the limit is the
  constant of the decorator, whatever the attribute \<open>timeout_seconds\<close> holds.
\<close>

definition ToolManager_call ::
  "env \<Rightarrow> ToolManager \<Rightarrow> world \<Rightarrow> string \<Rightarrow> string \<Rightarrow> pyval \<Rightarrow> exn + pyval \<times> world" where
  "ToolManager_call env tm w server_name tool_name args =
     with_timeout 900 (call_body env tm w) (server_name, tool_name, args)"

text \<open>
  \<open>ToolManager.call_openai_tool\<close>. The arguments are always a string, so the
  \<open>isinstance\<close> test takes its first branch.
\<close>

definition parse_arguments :: "env \<Rightarrow> string \<Rightarrow> pyval" where
  "parse_arguments env args_str =
     (case json_loads env (if args_str = [] then ''{}'' else args_str) of
        Inl e \<Rightarrow> PDict []
      | Inr args \<Rightarrow> args)"

definition call_openai_tool ::
  "env \<Rightarrow> ToolManager \<Rightarrow> world \<Rightarrow> ToolCall \<Rightarrow> exn + Event \<times> world" where
  "call_openai_tool env tm w0 tool_call =
     (let w = w0\<lparr>dispatched := dispatched w0 @ [tool_call]\<rparr>;
          tc_id = call_id tool_call;
          fn_name = call_name tool_call;
          args = parse_arguments env (arguments tool_call) in
      case openai_dispatch tm of
        None \<Rightarrow>
          Inl (TypeError (''argument of type '' @ [CHR 0x27] @ ''NoneType'' @ [CHR 0x27]
                 @ '' is not iterable''))
      | Some dispatch \<Rightarrow>
          (case dispatch fn_name of
             None \<Rightarrow>
               Inr (ToolCallResult tc_id (Some fn_name)
                      (json_dumps env
                         (PDict [(''error'', PStr (''Unknown tool function: '' @ fn_name))])),
                    w)
           | Some (server_name, tool_name) \<Rightarrow>
               bind_exn (ToolManager_call env tm w server_name tool_name args)
                 (\<lambda>(result, w1).
                    Inr (ToolCallResult tc_id (Some fn_name) (json_dumps env result), w1))))"

text \<open>
  \<open>ToolManager.list_openai_tools\<close>: discovery over the provider sessions and the
  conversion of its answer into tool specifications and the dispatch table. How the table
  is built is read by no property below, so the pair is the collaborators' answer.
\<close>

definition list_openai_tools ::
  "env \<Rightarrow> ToolManager \<Rightarrow> world \<Rightarrow> exn + pyval list \<times> ToolManager \<times> world" where
  "list_openai_tools env tm w =
     bind_exn (discover_tools env (tick w))
       (\<lambda>(tools, dispatch).
          Inr (tools, tm\<lparr>openai_tools := Some tools, openai_dispatch := Some dispatch\<rparr>,
               w\<lparr>tick := Suc (tick w)\<rparr>))"

section \<open>Bounded worker loop\<close>

text \<open>
  \<open>pepper/agent/worker.py\<close> and \<open>pepper/agent/scheduler.py\<close>: the attributes that
  both agent classes set in \<open>__init__\<close>, and those of the worker. The context store of
  an agent is the store of \<open>world\<close>.
\<close>

record Agent =
  tool_manager :: ToolManager
  tools :: "pyval list option"

record WorkerAgent = Agent +
  max_steps :: nat

definition return_final_answer_tool :: pyval where
  "return_final_answer_tool =
     PDict [(''type'', PStr ''function''),
            (''function'', PDict
               [(''name'', PStr ''return_final_answer''),
                (''description'', PStr ''Publish the final answer for the current task.''),
                (''parameters'', PDict
                   [(''type'', PStr ''object''),
                    (''properties'', PDict [(''answer'', PDict [(''type'', PStr ''string'')])]),
                    (''required'', PList [PStr ''answer''])])])]"

text \<open>
  \<open>WorkerAgent._ensure_tools\<close>. The list that \<open>+=\<close> extends is the very list the
  manager holds.
\<close>

definition ensure_tools :: "env \<Rightarrow> WorkerAgent \<Rightarrow> world \<Rightarrow> exn + WorkerAgent \<times> world" where
  "ensure_tools env agent w =
     (case tools agent of
        Some ts \<Rightarrow> Inr (agent, w)
      | None \<Rightarrow>
          bind_exn (list_openai_tools env (tool_manager agent) w)
            (\<lambda>(ts, tm, w1).
               let ts' = ts @ [return_final_answer_tool] in
               Inr (agent\<lparr>tool_manager := tm\<lparr>openai_tools := Some ts'\<rparr>, tools := Some ts'\<rparr>,
                    w1)))"

text \<open>
  \<open>await create_completion(...)\<close>. The model name, the token limit, the temperature and
  the trace name are constants of each call site and are not passed to the collaborator.
\<close>

definition complete ::
  "env \<Rightarrow> world \<Rightarrow> pyval list \<Rightarrow> pyval list option \<Rightarrow> exn + AssistantMessage \<times> world" where
  "complete env w msgs ts =
     bind_exn (create_completion env (tick w) msgs ts)
       (\<lambda>reply. Inr (reply, w\<lparr>tick := Suc (tick w),
                                completions := completions w @ [(msgs, reply)]\<rparr>))"

text \<open>A tool-call list as \<open>if x:\<close> and \<open>for tc in x\<close> read it: absent and empty alike.\<close>

definition calls_of :: "ToolCall list option \<Rightarrow> ToolCall list" where
  "calls_of tcs = (case tcs of None \<Rightarrow> [] | Some ts \<Rightarrow> ts)"

text \<open>Lines 95 to 107 of \<open>worker.py\<close>: the search for the final-answer call.\<close>

definition final_answer_call :: "AssistantMessage \<Rightarrow> ToolCall option" where
  "final_answer_call m = find (\<lambda>tool_call. call_name tool_call = ''return_final_answer'')
                           (calls_of (tool_calls m))"

definition recorded_reply :: "AssistantMessage \<Rightarrow> AssistantMessage" where
  "recorded_reply m =
     (case final_answer_call m of
        Some return_final_answer_tool_call \<Rightarrow>
          AssistantMessage (content m) (Some [return_final_answer_tool_call]) None
      | None \<Rightarrow> m)"

text \<open>
  Lines 119 to 129: the answer of a final-answer call. \<open>.get\<close> exists on a dictionary
  only; on another value that is true it raises.
\<close>

definition final_answer :: "env \<Rightarrow> string \<Rightarrow> exn + pyval" where
  "final_answer env fn_args =
     (let payload = (case json_loads env fn_args of Inl e \<Rightarrow> PDict [] | Inr p \<Rightarrow> p) in
      case (if truthy payload then payload else PDict []) of
        PDict kvs \<Rightarrow>
          (let answer = (case map_of kvs ''answer'' of None \<Rightarrow> PStr [] | Some a \<Rightarrow> a) in
           Inr (if answer = PStr [] then PStr fn_args else answer))
      | _ \<Rightarrow> Inl (AttributeError ''get''))"

text \<open>
  The \<open>for\<close> loop over the tool calls of the recorded reply (lines 113 to 141). It either
  returns from \<open>call\<close> with an answer, or ends with the calls to dispatch.
\<close>

datatype tool_loop = Returned pyval StateTracker world | Tasks "ToolCall list"

fun worker_tool_calls ::
  "env \<Rightarrow> StateTracker \<Rightarrow> world \<Rightarrow> ToolCall list \<Rightarrow> ToolCall list \<Rightarrow> exn + tool_loop" where
  "worker_tool_calls env st w [] tool_call_tasks = Inr (Tasks tool_call_tasks)"
| "worker_tool_calls env st w (tool_call # rest) tool_call_tasks =
     (if call_name tool_call = ''return_final_answer'' then
        bind_exn (final_answer env (arguments tool_call))
          (\<lambda>answer.
             bind_exn (add_event env st w
                         (ToolCallResult (call_id tool_call) (Some (call_name tool_call))
                            ''SEND SUCCESSFULLY''))
               (\<lambda>(st1, w1).
                  bind_exn (store_events env st1 w1) (\<lambda>w2. Inr (Returned answer st1 w2))))
      else worker_tool_calls env st w rest (tool_call_tasks @ [tool_call]))"

text \<open>
  \<open>asyncio.gather\<close> over the dispatches: the results come in the order of the calls, and
  an exception of one of them is raised to the caller. The dispatches run concurrently in
  the code; the trace lists them in the order of the calls.
\<close>

fun gather :: "env \<Rightarrow> ToolManager \<Rightarrow> world \<Rightarrow> ToolCall list \<Rightarrow> exn + Event list \<times> world" where
  "gather env tm w [] = Inr ([], w)"
| "gather env tm w (tool_call # rest) =
     bind_exn (call_openai_tool env tm w tool_call)
       (\<lambda>(r, w1). bind_exn (gather env tm w1 rest) (\<lambda>(rs, w2). Inr (r # rs, w2)))"

text \<open>
  The \<open>while\<close> loop of \<open>WorkerAgent.call\<close>. \<open>Some answer\<close> is a \<open>return\<close> from inside
  the loop, \<open>None\<close> is the loop running out of steps.
\<close>

function worker_loop ::
  "env \<Rightarrow> WorkerAgent \<Rightarrow> pyval \<Rightarrow> nat \<Rightarrow> StateTracker \<Rightarrow> world
     \<Rightarrow> exn + pyval option \<times> StateTracker \<times> world" where
  "worker_loop env agent system_message steps st w =
     (if steps < max_steps agent then
        bind_exn (messages st)
          (\<lambda>msgs.
        bind_exn (complete env w (system_message # msgs) (tools agent))
          (\<lambda>(reply, w1).
        let assistant_msg = recorded_reply reply in
        bind_exn (add_event env st w1 (AssistantEvent assistant_msg))
          (\<lambda>(st1, w2).
        if calls_of (tool_calls assistant_msg) \<noteq> [] then
          bind_exn (worker_tool_calls env st1 w2 (calls_of (tool_calls assistant_msg)) [])
            (\<lambda>r. case r of
               Returned answer st2 w3 \<Rightarrow> Inr (Some answer, st2, w3)
             | Tasks tool_call_tasks \<Rightarrow>
                 if tool_call_tasks \<noteq> [] then
                   bind_exn (gather env (tool_manager agent) w2 tool_call_tasks)
                     (\<lambda>(tool_result_msgs, w3).
                   bind_exn (add_events env st1 w3 tool_result_msgs)
                     (\<lambda>(st2, w4).
                   worker_loop env agent system_message (Suc steps) st2 w4))
                 else worker_loop env agent system_message (Suc steps) st1 w2)
        else worker_loop env agent system_message (Suc steps) st1 w2)))
      else Inr (None, st, w))"
  by pat_completeness auto
termination
  by (relation "measure (\<lambda>(env, agent, system_message, steps, st, w). max_steps agent - steps)")
     auto

declare worker_loop.simps [simp del]

text \<open>
  Lines 148 to 152: the search, from the newest message back, for the first one whose role
  is \<open>assistant\<close>. The argument is the reversed list.
\<close>

fun last_assistant :: "pyval list \<Rightarrow> exn + pyval" where
  "last_assistant [] = Inr PNone"
| "last_assistant (msg # rest) =
     (case msg of
        PDict kvs \<Rightarrow>
          (case map_of kvs ''role'' of
             None \<Rightarrow> Inl (KeyError ''role'')
           | Some role \<Rightarrow>
               if role = PStr ''assistant'' then
                 (case map_of kvs ''content'' of
                    None \<Rightarrow> Inl (KeyError ''content'')
                  | Some c \<Rightarrow> Inr c)
               else last_assistant rest)
      | _ \<Rightarrow> Inl (TypeError ''subscript''))"

text \<open>
  \<open>WorkerAgent.call\<close>. Besides the returned value the model gives the agent, the tracker
  of the call and the world as the call leaves them.
\<close>

definition WorkerAgent_call ::
  "env \<Rightarrow> WorkerAgent \<Rightarrow> world \<Rightarrow> string \<Rightarrow> string option
     \<Rightarrow> exn + pyval \<times> WorkerAgent \<times> StateTracker \<times> world" where
  "WorkerAgent_call env agent w request agent_name =
     bind_exn (ensure_tools env agent w)
       (\<lambda>(agent1, w1).
     bind_exn (retrieve_history env (WorkerStateTracker_init agent_name) w1)
       (\<lambda>(state_tracker, w2).
     let time_str = utc_now env (tick w2);
         w3 = w2\<lparr>tick := Suc (tick w2)\<rparr>;
         system_prompt =
           WORKER_SYSTEM_PROMPT env @
             (case summary state_tracker of
                None \<Rightarrow> []
              | Some past_summary \<Rightarrow>
                  if past_summary = [] then []
                  else ''\<newline>\<newline>The past summary is: '' @ past_summary);
         system_message = PDict [(''role'', PStr ''system''), (''content'', PStr system_prompt)]
     in
     bind_exn (add_event env state_tracker w3
                 (UserMessage (request @ ''\<newline>\<newline>Current time: '' @ time_str
                                 @ '' at UTC timezone'')))
       (\<lambda>(st1, w4).
     bind_exn (worker_loop env agent1 system_message 0 st1 w4)
       (\<lambda>(returned, st2, w5).
          case returned of
            Some answer \<Rightarrow> Inr (answer, agent1, st2, w5)
          | None \<Rightarrow>
              bind_exn (messages st2)
                (\<lambda>msgs.
              bind_exn (last_assistant (rev msgs))
                (\<lambda>last_assistant_content.
                   Inr (if truthy last_assistant_content then last_assistant_content
                        else PStr [],
                        agent1, st2, w5)))))))"

text \<open>
  The answer that a final-answer call carries, in the words of the amended claim about the
  final answer: the member \<open>answer\<close> of the decoded arguments, and the text of the
  arguments themselves when they do not decode, or decode to a value that has no such member
  or has the empty string there. The amended claim speaks of the calls whose arguments do
  not decode to a non-empty value other than an object.
\<close>

definition carried_answer :: "env \<Rightarrow> string \<Rightarrow> pyval" where
  "carried_answer env args =
     (case json_loads env args of
        Inl e \<Rightarrow> PStr args
      | Inr p \<Rightarrow>
          (case p of
             PDict kvs \<Rightarrow>
               (case map_of kvs ''answer'' of
                  None \<Rightarrow> PStr args
                | Some a \<Rightarrow> if a = PStr [] then PStr args else a)
           | _ \<Rightarrow> PStr args))"

definition object_or_empty :: "env \<Rightarrow> string \<Rightarrow> bool" where
  "object_or_empty env args =
     (case json_loads env args of
        Inl e \<Rightarrow> True
      | Inr p \<Rightarrow> (case p of PDict kvs \<Rightarrow> True | _ \<Rightarrow> \<not> truthy p))"

text \<open>
  The text of the newest assistant message of a log, and the empty text when the log has
  no assistant message or the newest one has no text: the value that the amended claim
  about the step ceiling names, written from its words.
\<close>

fun is_assistant :: "Event \<Rightarrow> bool" where
  "is_assistant (AssistantEvent _) = True"
| "is_assistant _ = False"

definition newest_assistant_text :: "Event list \<Rightarrow> string" where
  "newest_assistant_text es =
     (case find is_assistant (rev es) of
        Some (AssistantEvent m) \<Rightarrow> (case content m of None \<Rightarrow> [] | Some c \<Rightarrow> c)
      | _ \<Rightarrow> [])"

section \<open>Agent loop: one step of the scheduler\<close>

text \<open>
  \<open>pepper/agent/scheduler.py\<close>. The two queues are \<open>asyncio.Queue()\<close> without a bound,
  so \<open>put\<close> never suspends. The user-profile service is a collaborator; what it writes to
  the store is not part of the trace.
\<close>

record SchedulerAgent = Agent +
  max_batch_size :: nat
  event_queue :: "Event list"
  tool_call_queue :: "ToolCall list"
  state_tracker :: StateTracker
  debug_enabled :: bool

















section \<open>Comparing traces\<close>

text \<open>
  Two worlds with the same completions, the same dispatched tool calls and the same provider
  sessions: what the memory operations, which only talk to the store, the clock and the
  summarizer, leave as it was.
\<close>

definition same_calls :: "world \<Rightarrow> world \<Rightarrow> bool" where
  "same_calls w w' \<longleftrightarrow>
     completions w' = completions w \<and> dispatched w' = dispatched w \<and> sessions w' = sessions w"

section \<open>A concrete environment for the examples\<close>

text \<open>
  An environment in which every collaborator answers at once and without failing: the
  clock advances one second per answer from 1700000000, the store accepts every record,
  the summarizer answers \<open>summary\<close>, the providers answer with an empty assistant message
  and an empty tool result. The parser of serialised data knows the two argument strings
  and the argument list that the examples use.
\<close>

text \<open>Decimal digits, for the text of a clock reading that is a whole number of seconds.\<close>

function digits :: "nat \<Rightarrow> string" where
  "digits n = (if n < 10 then [''0123456789'' ! n]
               else digits (n div 10) @ [''0123456789'' ! (n mod 10)])"
  by pat_completeness auto
termination
  by (relation "measure id") auto

declare digits.simps [simp del]

definition calm_env :: env where
  "calm_env =
     \<lparr> json_loads = (\<lambda>s.
         if s = ''{\"reason\":\"pending\"}'' then Inr (PDict [(''reason'', PStr ''pending'')])
         else if s = ''{\"answer\": \"42\"}'' then Inr (PDict [(''answer'', PStr ''42'')])
         else if s = ''{}'' then Inr (PDict [])
         else if s = ''[1]'' then Inr (PList [PInt 1])
         else Inl (ValueError ''Expecting value'')),
       json_dumps = (\<lambda>v. case v of
           PDict [(k, PStr s)] \<Rightarrow> ''{\"'' @ k @ ''\": \"'' @ s @ ''\"}''
         | _ \<Rightarrow> ''{}''),
       py_str = (\<lambda>v. ''None''),
       model_dump_json = (\<lambda>e. ''{}''),
       str_float = (\<lambda>r. digits (nat \<lfloor>r\<rfloor>) @ ''.0''),
       time_time = (\<lambda>n. 1700000000 + real n),
       utc_now = (\<lambda>n. ''2025-01-01 00:00:00''),
       cs_store = (\<lambda>n r. None),
       cs_query = (\<lambda>n ns. Inr []),
       summarize_conversation = (\<lambda>n es s. Inr (Some ''summary'')),
       create_completion = (\<lambda>n ms ts. Inr (AssistantMessage None None None)),
       tool_session = (\<lambda>n s t a. Takes 1 (ToolContent [])),
       discover_tools = (\<lambda>n. Inr ([], Map.empty)),
       user_profile = (\<lambda>n. Inr PNone),
       WORKER_SYSTEM_PROMPT = ''worker'',
       SCHEDULER_SYSTEM_PROMPT = ''scheduler'' \<rparr>"

definition world0 :: world where
  "world0 = \<lparr> tick = 0, stored = [], completions = [], summaries = [], dispatched = [],
              sessions = [] \<rparr>"

text \<open>A manager after discovery, with one server and one registered function.\<close>

definition example_manager :: ToolManager where
  "example_manager =
     \<lparr> server_dict = [''mail'' \<mapsto> ''python mail.py''],
       timeout_seconds = 900,
       openai_tools = Some [],
       openai_dispatch = Some [''mail__send'' \<mapsto> (''mail'', ''send'')] \<rparr>"

text \<open>A worker as \<open>WorkerAgent.__init__\<close> and a first \<open>_ensure_tools\<close> leave it.\<close>

definition example_worker :: WorkerAgent where
  "example_worker =
     \<lparr> tool_manager = example_manager, tools = Some [return_final_answer_tool],
       max_steps = 10 \<rparr>"

text \<open>
  A provider that asks for a mail to be sent and, in the same reply, gives the final answer.
\<close>

definition answering_env :: env where
  "answering_env = calm_env\<lparr>create_completion := (\<lambda>n msgs ts.
      Inr (AssistantMessage (Some ''Done.'')
             (Some [ToolCall ''call_1'' ''mail__send'' ''{}'',
                    ToolCall ''call_2'' ''return_final_answer'' ''{\"answer\": \"42\"}''])
             (Some ''tool_calls'')))\<rparr>"

text \<open>
  Two scripted providers that never give a final answer. The first says \<open>Working on it\<close>
  on each of the first nine steps and on the tenth only asks for a tool that is not
  registered; the second says \<open>Working on it\<close> on every step.
\<close>

definition silent_end_env :: env where
  "silent_end_env = calm_env\<lparr>create_completion := (\<lambda>n msgs ts.
      if length msgs \<le> 10
      then Inr (AssistantMessage (Some ''Working on it'') None (Some ''stop''))
      else Inr (AssistantMessage None (Some [ToolCall ''call_9'' ''nope'' ''{}''])
                  (Some ''tool_calls'')))\<rparr>"

definition talking_env :: env where
  "talking_env = calm_env\<lparr>create_completion := (\<lambda>n msgs ts.
      Inr (AssistantMessage (Some ''Working on it'') None (Some ''stop'')))\<rparr>"




text \<open>
  A provider whose final-answer call has a list for its arguments, and the tracker of a
  worker named \<open>mail\<close> whose log holds 99 earlier messages.
\<close>

definition list_answer_env :: env where
  "list_answer_env = calm_env\<lparr>create_completion := (\<lambda>n msgs ts.
      Inr (AssistantMessage (Some ''Done.'')
             (Some [ToolCall ''call_2'' ''return_final_answer'' ''[1]''])
             (Some ''tool_calls'')))\<rparr>"

definition long_tracker :: StateTracker where
  "long_tracker =
     (StateTracker_init (Some ''memory-mail''))\<lparr>events := replicate 99 (UserMessage ''earlier'')\<rparr>"

text \<open>What a run of \<open>WorkerAgent.call\<close> returned, and the replies it received, in order.\<close>

definition returned_answer ::
  "exn + pyval \<times> WorkerAgent \<times> StateTracker \<times> world \<Rightarrow> pyval option" where
  "returned_answer r = (case r of Inl e \<Rightarrow> None | Inr (answer, rest) \<Rightarrow> Some answer)"

definition replies_received ::
  "exn + pyval \<times> WorkerAgent \<times> StateTracker \<times> world \<Rightarrow> AssistantMessage list" where
  "replies_received r =
     (case r of Inl e \<Rightarrow> [] | Inr (answer, agent, st, w) \<Rightarrow> map snd (completions w))"

section \<open>Verified properties\<close>

subsection \<open>Model-to-provider resolution\<close>

text \<open>
  Claim C4. Resolution tries, in this order, the environment override \<open>LLM_PROVIDER\<close>
  (returned lower-cased whenever it is set and not empty), the static table
  \<open>MODEL_PROVIDERS\<close>, and then the providers with a credential in the environment
  (OpenAI, then Bedrock, then Anthropic); when none of them answers it raises an error
  naming the model. With the override at \<open>openai\<close> the model \<open>claude-3-5-sonnet\<close>
  resolves to \<open>openai\<close> in every environment, although the table maps it to \<open>bedrock\<close>.
\<close>

theorem get_provider_for_model_order:
  "(environ_get environ ''LLM_PROVIDER'' = Some p \<longrightarrow>
      get_provider_for_model environ model = Inr (lower p))
   \<and> (environ_get environ ''LLM_PROVIDER'' = None \<and> map_of MODEL_PROVIDERS model = Some q \<longrightarrow>
      get_provider_for_model environ model = Inr q)
   \<and> (environ_get environ ''LLM_PROVIDER'' = None \<and> map_of MODEL_PROVIDERS model = None \<longrightarrow>
      get_provider_for_model environ model =
        (if environ_get environ ''OPENAI_API_KEY'' \<noteq> None then Inr ''openai''
         else if environ_get environ ''BEDROCK_API_KEY'' \<noteq> None
                 \<or> environ_get environ ''AWS_API_KEY'' \<noteq> None then Inr ''bedrock''
         else if environ_get environ ''ANTHROPIC_API_KEY'' \<noteq> None then Inr ''anthropic''
         else Inl (ValueError (''Cannot determine provider for model '' @ [CHR 0x27] @ model
                @ [CHR 0x27] @ ''. Set LLM_PROVIDER env var or configure API keys.''))))
   \<and> map_of MODEL_PROVIDERS ''claude-3-5-sonnet'' = Some ''bedrock''
   \<and> get_provider_for_model (e(''LLM_PROVIDER'' \<mapsto> ''openai'')) ''claude-3-5-sonnet''
        = Inr ''openai''"
  by (simp add: get_provider_for_model_def environ_get_def lower_def lower_char_def
      MODEL_PROVIDERS_def)

theorem get_provider_for_model_order_witness:
  "get_provider_for_model [''LLM_PROVIDER'' \<mapsto> ''OpenAI''] ''claude-3-5-sonnet'' = Inr ''openai''
   \<and> get_provider_for_model Map.empty ''claude-3-5-sonnet'' = Inr ''bedrock''
   \<and> get_provider_for_model [''AWS_API_KEY'' \<mapsto> ''k''] ''gpt-4.1'' = Inr ''bedrock''
   \<and> get_provider_for_model [''LLM_PROVIDER'' \<mapsto> []] ''gpt-4.1'' =
       Inl (ValueError (''Cannot determine provider for model '' @ [CHR 0x27] @ ''gpt-4.1''
                @ [CHR 0x27] @ ''. Set LLM_PROVIDER env var or configure API keys.''))"
proof -
  have l: "lower ''OpenAI'' = ''openai''" by code_simp
  have 1: "environ_get [''LLM_PROVIDER'' \<mapsto> ''OpenAI''] ''LLM_PROVIDER'' = Some ''OpenAI''"
    by (simp add: environ_get_def)
  have 2: "environ_get Map.empty ''LLM_PROVIDER'' = None \<and>
           map_of MODEL_PROVIDERS ''claude-3-5-sonnet'' = Some ''bedrock''"
    by (simp add: environ_get_def MODEL_PROVIDERS_def)
  have 3: "environ_get [''AWS_API_KEY'' \<mapsto> ''k''] ''LLM_PROVIDER'' = None \<and>
           map_of MODEL_PROVIDERS ''gpt-4.1'' = None"
    by (simp add: environ_get_def MODEL_PROVIDERS_def)
  have 4: "environ_get [''LLM_PROVIDER'' \<mapsto> []] ''LLM_PROVIDER'' = None \<and>
           map_of MODEL_PROVIDERS ''gpt-4.1'' = None"
    by (simp add: environ_get_def MODEL_PROVIDERS_def)
  show ?thesis
    using get_provider_for_model_order
            [of "[''LLM_PROVIDER'' \<mapsto> ''OpenAI'']" "''OpenAI''" "''claude-3-5-sonnet''"] 1 l
          get_provider_for_model_order
            [of Map.empty _ "''claude-3-5-sonnet''" "''bedrock''"] 2
          get_provider_for_model_order [of "[''AWS_API_KEY'' \<mapsto> ''k'']" _ "''gpt-4.1''"] 3
          get_provider_for_model_order [of "[''LLM_PROVIDER'' \<mapsto> []]" _ "''gpt-4.1''"] 4
    by (simp add: environ_get_def)
qed

subsection \<open>The worker's wire rendering is partial\<close>

lemma map_exn_Inr_iff: "(\<exists>ys. map_exn f xs = Inr ys) \<longleftrightarrow> list_all (\<lambda>x. \<exists>y. f x = Inr y) xs"
  by (induction xs) (auto split: sum.splits)

lemma map_exn_first_error:
  "find (\<lambda>x. \<forall>y. f x \<noteq> Inr y) xs = Some x \<Longrightarrow> f x = Inl e \<Longrightarrow> map_exn f xs = Inl e"
proof (induction xs)
  case Nil
  then show ?case by simp
next
  case (Cons a xs)
  then show ?case by (cases "f a") (auto split: sum.splits if_splits)
qed

lemma to_openai_format_wire_kind: "(\<exists>m. to_openai_format e = Inr m) \<longleftrightarrow> wire_kind e"
  by (cases e) auto

lemma to_openai_format_other:
  "\<not> wire_kind e \<Longrightarrow> to_openai_format e = Inl (ValueError (''Unknown event type: '' @ class_name e))"
  by (cases e) auto

text \<open>
  Claim C10. For every event log, \<open>messages\<close> returns exactly when every event of the log
  is a user message, an assistant message, a tool call or a tool result. Otherwise it raises
  \<open>ValueError\<close> with the text \<open>Unknown event type:\<close> followed by the class name of the
  first event of another kind, which is one of \<open>GenericEvent\<close>, \<open>SendToUser\<close> and
  \<open>Wait\<close>.
\<close>

theorem messages_partial:
  "((\<exists>ms. messages st = Inr ms) \<longleftrightarrow> list_all wire_kind (events st))
   \<and> (case find (\<lambda>e. \<not> wire_kind e) (events st) of
         None \<Rightarrow> list_all wire_kind (events st)
       | Some e \<Rightarrow>
           messages st = Inl (ValueError (''Unknown event type: '' @ class_name e))
           \<and> class_name e \<in> {''GenericEvent'', ''SendToUser'', ''Wait''})"
proof -
  have a: "(\<exists>ms. messages st = Inr ms) \<longleftrightarrow> list_all wire_kind (events st)"
    by (simp add: messages_def map_exn_Inr_iff to_openai_format_wire_kind)
  have f: "(\<lambda>e. \<forall>y. to_openai_format e \<noteq> Inr y) = (\<lambda>e. \<not> wire_kind e)"
  proof (rule ext)
    fix e show "(\<forall>y. to_openai_format e \<noteq> Inr y) = (\<not> wire_kind e)"
      using to_openai_format_wire_kind [of e] by auto
  qed
  have b: "messages st = Inl (ValueError (''Unknown event type: '' @ class_name e))
           \<and> class_name e \<in> {''GenericEvent'', ''SendToUser'', ''Wait''}"
    if "find (\<lambda>e. \<not> wire_kind e) (events st) = Some e" for e
  proof -
    from that have n: "\<not> wire_kind e" by (auto simp: find_Some_iff)
    have "messages st = Inl (ValueError (''Unknown event type: '' @ class_name e))"
      unfolding messages_def
      by (rule map_exn_first_error [where x = e]) (simp_all add: f that to_openai_format_other n)
    moreover have "class_name e \<in> {''GenericEvent'', ''SendToUser'', ''Wait''}"
      using n by (cases e) auto
    ultimately show ?thesis by simp
  qed
  have c: "list_all wire_kind (events st)" if "find (\<lambda>e. \<not> wire_kind e) (events st) = None"
    using that by (auto simp: find_None_iff list_all_iff)
  show ?thesis using a b c by (auto split: option.splits)
qed

subsection \<open>Draining the inbound queue\<close>

lemma batch_loop_take_drop:
  "batch_loop m evs q = Ready (evs @ take (m - length evs) q, drop (m - length evs) q)"
proof (induction m evs q rule: batch_loop.induct)
  case (1 m evs q)
  show ?case
  proof (cases q)
    case Nil
    then show ?thesis by (simp add: batch_loop.simps)
  next
    case (Cons x q')
    show ?thesis
    proof (cases "length evs < m")
      case True
      then obtain k where k: "m - length evs = Suc k"
        by (cases "m - length evs") auto
      have "batch_loop m evs q = batch_loop m (evs @ [x]) q'"
        using True Cons by (subst batch_loop.simps) (simp add: queue_get_def)
      also have "\<dots> = Ready ((evs @ [x]) @ take (m - length (evs @ [x])) q',
                             drop (m - length (evs @ [x])) q')"
        using "1.IH" [of "(x, q')" x q'] True Cons by (simp add: queue_get_def)
      also have "m - length (evs @ [x]) = k" using k by simp
      finally show ?thesis using k Cons by simp
    next
      case False
      then show ?thesis by (subst batch_loop.simps) simp
    qed
  qed
qed

text \<open>
  Claim C8. On a queue that holds at least one event and for a batch size of at least one,
  \<open>get_batch_events\<close> returns without being suspended; it returns the first
  \<open>max_batch_size\<close> queued events (all of them when fewer are queued) in arrival order,
  so at least one and at most \<open>max_batch_size\<close>, and leaves the rest queued. It is
  suspended only on the empty queue, in its first \<open>get\<close>.
\<close>

theorem get_batch_events_fifo:
  "(q \<noteq> [] \<and> 1 \<le> m \<longrightarrow>
      get_batch_events q m = Ready (take m q, drop m q)
      \<and> 1 \<le> length (take m q) \<and> length (take m q) \<le> m)
   \<and> get_batch_events ([] :: 'a list) m = Suspended"
proof -
  have "get_batch_events q m = Ready (take m q, drop m q)" if "q \<noteq> []" "1 \<le> m"
  proof -
    from that obtain x q' where q: "q = x # q'" by (cases q) auto
    from that obtain k where m: "m = Suc k" by (cases m) auto
    show ?thesis
      by (simp add: get_batch_events_def queue_get_def q m batch_loop_take_drop)
  qed
  moreover have "1 \<le> length (take m q)" if "q \<noteq> []" "1 \<le> m"
    using that by (cases q; cases m) auto
  ultimately show ?thesis
    by (simp add: get_batch_events_def queue_get_def)
qed

theorem get_batch_events_fifo_witness:
  "get_batch_events [UserMessage ''a'', UserMessage ''b'', UserMessage ''c''] 2
     = Ready ([UserMessage ''a'', UserMessage ''b''], [UserMessage ''c''])
   \<and> get_batch_events [UserMessage ''a''] 4 = Ready ([UserMessage ''a''], [])"
  using get_batch_events_fifo [of "[UserMessage ''a'', UserMessage ''b'', UserMessage ''c'']" 2]
        get_batch_events_fifo [of "[UserMessage ''a'']" 4]
  by auto

subsection \<open>Conversation memory: the bound on the live log\<close>

lemma auto_store_fields:
  "auto_store env st w = Inr (st', w') \<Longrightarrow>
     events st' = events st \<and> summary st' = summary st \<and> len_limit st' = len_limit st
     \<and> summarize_last_n_events st' = summarize_last_n_events st
     \<and> namespace st' = namespace st
     \<and> auto_store_every_n_events st' = auto_store_every_n_events st"
  by (auto simp: auto_store_def bind_exn_def Let_def split: if_splits sum.splits)

lemma track_recent_fields:
  "events (track_recent st e) = events st \<and> summary (track_recent st e) = summary st
   \<and> len_limit (track_recent st e) = len_limit st
   \<and> summarize_last_n_events (track_recent st e) = summarize_last_n_events st
   \<and> namespace (track_recent st e) = namespace st
   \<and> auto_store_every_n_events (track_recent st e) = auto_store_every_n_events st"
  by (cases e) (simp_all add: track_recent_def Let_def)

lemma compact_fields:
  "compact env st w = Inr (st', w') \<Longrightarrow>
     len_limit st' = len_limit st
     \<and> summarize_last_n_events st' = summarize_last_n_events st
     \<and> namespace st' = namespace st
     \<and> auto_store_every_n_events st' = auto_store_every_n_events st"
  by (auto simp: compact_def bind_exn_def split: if_splits sum.splits)

lemma compact_events:
  "compact env st w = Inr (st', w') \<Longrightarrow>
     (if len_limit st < length (events st)
      then events st' = drop (summarize_last_n_events st) (events st)
           \<and> summarize_conversation env (tick w)
                (take (summarize_last_n_events st) (events st)) (summary st) = Inr (summary st')
      else events st' = events st \<and> summary st' = summary st)"
  by (auto simp: compact_def bind_exn_def split: if_splits sum.splits)

lemma add_event_split:
  assumes "add_event env st w e = Inr (st', w')"
  obtains st1 w1 where
    "auto_store env (st\<lparr>events := events st @ [e]\<rparr>) w = Inr (st1, w1)"
    "compact env (track_recent st1 e) w1 = Inr (st', w')"
  using assms by (auto simp: add_event_def bind_exn_def split: sum.splits)

lemma add_event_fields:
  assumes "add_event env st w e = Inr (st', w')"
  shows "len_limit st' = len_limit st
     \<and> summarize_last_n_events st' = summarize_last_n_events st
     \<and> namespace st' = namespace st
     \<and> auto_store_every_n_events st' = auto_store_every_n_events st"
proof -
  from assms obtain st1 w1 where
    a: "auto_store env (st\<lparr>events := events st @ [e]\<rparr>) w = Inr (st1, w1)" and
    c: "compact env (track_recent st1 e) w1 = Inr (st', w')"
    by (rule add_event_split)
  show ?thesis
    using auto_store_fields [OF a] compact_fields [OF c] track_recent_fields [of st1 e]
    by simp
qed

lemma add_event_events:
  assumes "add_event env st w e = Inr (st', w')"
  shows "if len_limit st < length (events st @ [e])
      then events st' = drop (summarize_last_n_events st) (events st @ [e])
           \<and> (\<exists>t. summarize_conversation env t
                (take (summarize_last_n_events st) (events st @ [e])) (summary st)
                  = Inr (summary st'))
      else events st' = events st @ [e] \<and> summary st' = summary st"
proof -
  from assms obtain st1 w1 where
    a: "auto_store env (st\<lparr>events := events st @ [e]\<rparr>) w = Inr (st1, w1)" and
    c: "compact env (track_recent st1 e) w1 = Inr (st', w')"
    by (rule add_event_split)
  show ?thesis
    using auto_store_fields [OF a] compact_events [OF c] track_recent_fields [of st1 e]
    by (auto split: if_splits)
qed

lemma add_event_within_limit:
  assumes "add_event env st w e = Inr (st', w')"
    and "length (events st) \<le> len_limit st" and "1 \<le> summarize_last_n_events st"
  shows "length (events st') \<le> len_limit st'"
  using add_event_events [OF assms(1)] add_event_fields [OF assms(1)] assms(2,3)
  by (auto split: if_splits)

lemma add_events_invariant:
  assumes "add_events env st w es = Inr (st', w')"
    and "length (events st) \<le> len_limit st" and "1 \<le> summarize_last_n_events st"
  shows "length (events st') \<le> len_limit st'
         \<and> len_limit st' = len_limit st
         \<and> summarize_last_n_events st' = summarize_last_n_events st
         \<and> namespace st' = namespace st"
  using assms
proof (induction es arbitrary: st w)
  case Nil
  then show ?case by simp
next
  case (Cons e es)
  from Cons.prems(1) obtain st1 w1 where
    s: "add_event env st w e = Inr (st1, w1)" and r: "add_events env st1 w1 es = Inr (st', w')"
    by (auto simp: bind_exn_def split: sum.splits)
  have b: "length (events st1) \<le> len_limit st1"
    using add_event_within_limit [OF s Cons.prems(2,3)] .
  have f: "len_limit st1 = len_limit st
     \<and> summarize_last_n_events st1 = summarize_last_n_events st \<and> namespace st1 = namespace st"
    using add_event_fields [OF s] by simp
  show ?case using Cons.IH [OF r b] f Cons.prems(3) by simp
qed

text \<open>
  Without a namespace the flush does nothing, so a call that does not compact returns
  whatever the collaborators do.
\<close>

lemma add_event_anonymous:
  assumes "namespace st = None" and "length (events st) < len_limit st"
  shows "\<exists>st'. add_event env st w e = Inr (st', w) \<and> events st' = events st @ [e]
           \<and> summary st' = summary st \<and> namespace st' = None \<and> len_limit st' = len_limit st"
  using assms
  by (cases e)
     (auto simp: add_event_def auto_store_def store_events_def compact_def track_recent_def
        bind_exn_def Let_def)

lemma add_events_anonymous:
  assumes "namespace st = None" and "length (events st) + k \<le> len_limit st"
  shows "\<exists>st'. add_events env st w (replicate k e) = Inr (st', w)
           \<and> events st' = events st @ replicate k e \<and> summary st' = summary st
           \<and> namespace st' = None \<and> len_limit st' = len_limit st"
  using assms
proof (induction k arbitrary: st)
  case 0
  then show ?case by simp
next
  case (Suc k)
  from Suc.prems obtain st1 where
    s: "add_event env st w e = Inr (st1, w)" "events st1 = events st @ [e]"
       "summary st1 = summary st" "namespace st1 = None" "len_limit st1 = len_limit st"
    using add_event_anonymous [of st env w e] by auto
  from Suc.IH [of st1] s Suc.prems obtain st' where
    "add_events env st1 w (replicate k e) = Inr (st', w)"
    "events st' = events st1 @ replicate k e" "summary st' = summary st1"
    "namespace st' = None" "len_limit st' = len_limit st1"
    by auto
  with s show ?case by (auto simp: bind_exn_def replicate_app_Cons_same)
qed

text \<open>
  Claim C1. Take any sequence of \<open>add_event\<close> calls on a tracker that starts empty, all of
  which return, and one more call that returns. The live log is within \<open>len_limit\<close> before
  and after that call. If the append takes the log over \<open>len_limit\<close>, the call itself
  removes the oldest \<open>summarize_last_n_events\<close> events, keeps the others in their order,
  and the new summary is the summarizer's answer on the removed events and the old summary;
  otherwise the event is appended and the summary is unchanged.
\<close>

theorem add_event_bounded:
  assumes "add_events env (StateTracker_init ns) w es = Inr (st, w1)"
    and "add_event env st w1 e = Inr (st', w')"
  shows "length (events st) \<le> len_limit st \<and> length (events st') \<le> len_limit st'
     \<and> (len_limit st < length (events st @ [e]) \<longrightarrow>
          events st' = drop (summarize_last_n_events st) (events st @ [e])
          \<and> (\<exists>t. summarize_conversation env t
                (take (summarize_last_n_events st) (events st @ [e])) (summary st)
                  = Inr (summary st')))
     \<and> (length (events st @ [e]) \<le> len_limit st \<longrightarrow>
          events st' = events st @ [e] \<and> summary st' = summary st)"
proof -
  have i: "length (events st) \<le> len_limit st \<and> summarize_last_n_events st = 60"
    using add_events_invariant [OF assms(1)] by (simp add: StateTracker_init_def)
  then have "length (events st') \<le> len_limit st'"
    using add_event_within_limit [OF assms(2)] by simp
  then show ?thesis using i add_event_events [OF assms(2)] by (auto split: if_splits)
qed

theorem add_event_bounded_witness:
  "\<exists>st st' w'.
     add_events calm_env (StateTracker_init None) world0 (replicate 100 (UserMessage ''m''))
       = Inr (st, world0)
     \<and> add_event calm_env st world0 (UserMessage ''n'') = Inr (st', w')
     \<and> len_limit st < length (events st @ [UserMessage ''n''])
     \<and> events st' = replicate 40 (UserMessage ''m'') @ [UserMessage ''n'']
     \<and> summary st' = Some ''summary''
     \<and> length (events st') \<le> len_limit st'"
proof -
  obtain st where st:
    "add_events calm_env (StateTracker_init None) world0 (replicate 100 (UserMessage ''m''))
       = Inr (st, world0)"
    "events st = replicate 100 (UserMessage ''m'')" "summary st = None"
    "namespace st = None" "len_limit st = 100"
    using add_events_anonymous [of "StateTracker_init None" 100 calm_env world0 "UserMessage ''m''"]
    by (auto simp: StateTracker_init_def)
  have n: "summarize_last_n_events st = 60"
    using add_events_invariant [OF st(1)] by (simp add: StateTracker_init_def)
  obtain st' w' where a: "add_event calm_env st world0 (UserMessage ''n'') = Inr (st', w')"
    using st(2-5)
    by (cases "add_event calm_env st world0 (UserMessage ''n'')")
       (auto simp: add_event_def auto_store_def store_events_def compact_def track_recent_def
          bind_exn_def Let_def calm_env_def split: if_splits)
  have over: "len_limit st < length (events st @ [UserMessage ''n''])"
    using st by simp
  have r: "replicate 100 (UserMessage ''m'') = replicate 60 (UserMessage ''m'') @ replicate 40 (UserMessage ''m'')"
    by (simp add: replicate_add [symmetric])
  from add_event_bounded [OF st(1) a] over
  have "length (events st') \<le> len_limit st'"
    "events st' = drop 60 (events st @ [UserMessage ''n''])"
    "\<exists>t. summarize_conversation calm_env t (take 60 (events st @ [UserMessage ''n''])) (summary st)
            = Inr (summary st')"
    using n by auto
  then have "length (events st') \<le> len_limit st'"
    "events st' = replicate 40 (UserMessage ''m'') @ [UserMessage ''n'']"
    "summary st' = Some ''summary''"
    using st(2) r by (auto simp: calm_env_def)
  with st(1) a over show ?thesis by blast
qed

subsection \<open>Conversation memory: what a flush sends to the store\<close>

lemma store_events_sends:
  "namespace st = Some ns \<Longrightarrow> store_events env st w = Inr w' \<Longrightarrow>
     stored w' = stored w @
       [\<lparr> context_id = ns @ ''_'' @ str_float env (time_time env (tick w)),
          data = AgentStateData (events st) (summary st),
          context_namespace = ns,
          context_type = ''AgentState'' \<rparr>]"
  by (auto simp: store_events_def now_def context_store_store_def split: option.splits)




subsection \<open>Tool dispatch: unknown tools, undecodable arguments, timeouts\<close>

text \<open>
  Claim C3. Once discovery has built the dispatch table, a tool call whose name is not a
  key of the table does not raise: the result carries the call's identifier and name, and
  its payload is the serialised error object whose message is \<open>Unknown tool function:\<close>
  followed by the attempted name, whatever the arguments are. For a registered name whose
  arguments do not decode, the provider is called with the empty argument dictionary.
\<close>

theorem call_openai_tool_unknown:
  "(openai_dispatch tm = Some dispatch \<and> dispatch (call_name tc) = None \<longrightarrow>
      call_openai_tool env tm w tc =
        Inr (ToolCallResult (call_id tc) (Some (call_name tc))
               (json_dumps env
                  (PDict [(''error'', PStr (''Unknown tool function: '' @ call_name tc))])),
             w\<lparr>dispatched := dispatched w @ [tc]\<rparr>))
   \<and> (openai_dispatch tm = Some dispatch \<and> dispatch (call_name tc) = Some (server, tool)
       \<and> arguments tc \<noteq> [] \<and> json_loads env (arguments tc) = Inl e \<longrightarrow>
      call_openai_tool env tm w tc =
        bind_exn
          (ToolManager_call env tm (w\<lparr>dispatched := dispatched w @ [tc]\<rparr>) server tool (PDict []))
          (\<lambda>(result, w1).
             Inr (ToolCallResult (call_id tc) (Some (call_name tc)) (json_dumps env result), w1)))"
  by (simp add: call_openai_tool_def parse_arguments_def Let_def)

theorem call_openai_tool_unknown_witness:
  "call_openai_tool calm_env example_manager world0 (ToolCall ''call_1'' ''nope'' ''{}'') =
     Inr (ToolCallResult ''call_1'' (Some ''nope'') ''{\"error\": \"Unknown tool function: nope\"}'',
          world0\<lparr>dispatched := [ToolCall ''call_1'' ''nope'' ''{}'']\<rparr>)
   \<and> call_openai_tool calm_env example_manager world0 (ToolCall ''call_2'' ''mail__send'' ''{oops'') =
     Inr (ToolCallResult ''call_2'' (Some ''mail__send'') ''{}'',
          world0\<lparr>dispatched := [ToolCall ''call_2'' ''mail__send'' ''{oops''], tick := 1,
                  sessions := [(''mail'', ''send'', PDict [])]\<rparr>)"
proof -
  have d: "openai_dispatch example_manager = Some [''mail__send'' \<mapsto> (''mail'', ''send'')]"
    by (simp add: example_manager_def)
  have l: "json_loads calm_env ''{oops'' = Inl (ValueError ''Expecting value'')"
    by (simp add: calm_env_def)
  have c: "ToolManager_call calm_env example_manager
             (world0\<lparr>dispatched := dispatched world0 @ [ToolCall ''call_2'' ''mail__send'' ''{oops'']\<rparr>)
             ''mail'' ''send'' (PDict [])
           = Inr (PDict [(''server_name'', PStr ''mail''), (''tool_name'', PStr ''send''),
                         (''result'', PStr '''')],
                  world0\<lparr>dispatched := [ToolCall ''call_2'' ''mail__send'' ''{oops''], tick := 1,
                          sessions := [(''mail'', ''send'', PDict [])]\<rparr>)"
    by (simp add: ToolManager_call_def with_timeout_def call_body_def wait_for_def bind_exn_def
        example_manager_def calm_env_def world0_def)
  have j: "json_dumps calm_env (PDict [(''error'', PStr (''Unknown tool function: '' @ ''nope''))])
             = ''{\"error\": \"Unknown tool function: nope\"}''"
    by (simp add: calm_env_def)
  have k: "json_dumps calm_env (PDict [(''server_name'', PStr ''mail''), (''tool_name'', PStr ''send''),
                         (''result'', PStr '''')]) = ''{}''"
    by (simp add: calm_env_def)
  show ?thesis
    using call_openai_tool_unknown [where tm = example_manager and env = calm_env and w = world0
            and tc = "ToolCall ''call_1'' ''nope'' ''{}''"
            and dispatch = "[''mail__send'' \<mapsto> (''mail'', ''send'')]"]
          call_openai_tool_unknown [where tm = example_manager and env = calm_env and w = world0
            and tc = "ToolCall ''call_2'' ''mail__send'' ''{oops''"
            and dispatch = "[''mail__send'' \<mapsto> (''mail'', ''send'')]"
            and server = "''mail''" and tool = "''send''" and e = "ValueError ''Expecting value''"]
          d l c j k
    by (simp add: bind_exn_def world0_def)
qed

text \<open>
  Claim C2, evaluated on the code. For a registered tool on a configured server whose
  provider session takes longer than the 900 seconds of the decorator, or never ends,
  \<open>call_openai_tool\<close> raises \<open>TimeoutError\<close> to its caller; no result is returned.
\<close>

theorem call_openai_tool_timeout_raises:
  assumes "openai_dispatch tm = Some dispatch"
    and "dispatch (call_name tc) = Some (server, tool)"
    and "server_dict tm server = Some params"
    and "tool_session env (tick w) server tool (parse_arguments env (arguments tc)) = run"
    and "run = Forever \<or> (\<exists>d r. run = Takes d r \<and> 900 < d)"
  shows "call_openai_tool env tm w tc = Inl TimeoutError"
  using assms
  by (auto simp: call_openai_tool_def ToolManager_call_def with_timeout_def call_body_def
      wait_for_def bind_exn_def Let_def split: session_end.splits)

theorem call_openai_tool_timeout_raises_witness:
  "call_openai_tool (calm_env\<lparr>tool_session := (\<lambda>n s t a. Takes 901 (ToolContent [Some ''done'']))\<rparr>)
     example_manager world0 (ToolCall ''call_3'' ''mail__send'' ''{}'') = Inl TimeoutError"
proof -
  let ?env = "calm_env\<lparr>tool_session := (\<lambda>n s t a. Takes 901 (ToolContent [Some ''done'']))\<rparr>"
  show ?thesis
    by (rule call_openai_tool_timeout_raises
          [where tm = example_manager and env = ?env and w = world0
             and dispatch = "[''mail__send'' \<mapsto> (''mail'', ''send'')]"
             and server = "''mail''" and tool = "''send''" and params = "''python mail.py''"
             and run = "Takes 901 (ToolContent [Some ''done''])"])
       (simp_all add: example_manager_def)
qed

subsection \<open>What the memory operations leave untouched in the trace\<close>

lemma same_calls_refl [simp]: "same_calls w w"
  by (simp add: same_calls_def)

lemma same_calls_trans: "same_calls w w1 \<Longrightarrow> same_calls w1 w2 \<Longrightarrow> same_calls w w2"
  by (simp add: same_calls_def)

lemma store_events_same_calls: "store_events env st w = Inr w' \<Longrightarrow> same_calls w w'"
  by (auto simp: store_events_def now_def context_store_store_def same_calls_def
      split: option.splits)

lemma auto_store_same_calls: "auto_store env st w = Inr (st', w') \<Longrightarrow> same_calls w w'"
  by (auto simp: auto_store_def bind_exn_def Let_def split: if_splits sum.splits
      dest: store_events_same_calls)

lemma compact_same_calls: "compact env st w = Inr (st', w') \<Longrightarrow> same_calls w w'"
  by (auto simp: compact_def bind_exn_def same_calls_def split: if_splits sum.splits)

lemma add_event_same_calls:
  assumes "add_event env st w e = Inr (st', w')"
  shows "same_calls w w'"
proof -
  from assms obtain st1 w1 where
    a: "auto_store env (st\<lparr>events := events st @ [e]\<rparr>) w = Inr (st1, w1)" and
    c: "compact env (track_recent st1 e) w1 = Inr (st', w')"
    by (rule add_event_split)
  show ?thesis
    using auto_store_same_calls [OF a] compact_same_calls [OF c] by (rule same_calls_trans)
qed

lemma add_events_same_calls:
  "add_events env st w es = Inr (st', w') \<Longrightarrow> same_calls w w'"
proof (induction es arbitrary: st w)
  case Nil
  then show ?case by simp
next
  case (Cons e es)
  from Cons.prems obtain st1 w1 where
    s: "add_event env st w e = Inr (st1, w1)" and r: "add_events env st1 w1 es = Inr (st', w')"
    by (auto simp: bind_exn_def split: sum.splits)
  show ?case using add_event_same_calls [OF s] Cons.IH [OF r] by (rule same_calls_trans)
qed

lemma drop_drop_append:
  assumes "k1 \<le> length xs"
  shows "drop k2 (drop k1 xs @ ys) = drop (k2 + k1) (xs @ ys)"
proof -
  have "drop k1 xs @ ys = drop k1 (xs @ ys)" using assms by simp
  then show ?thesis by (simp only: drop_drop)
qed

text \<open>The live log after a call is an end piece of the log with the event appended.\<close>

lemma add_event_drop:
  assumes "add_event env st w e = Inr (st', w')"
  shows "\<exists>k. events st' = drop k (events st @ [e])
             \<and> (length (events st) < len_limit st \<longrightarrow> k = 0)"
proof (cases "len_limit st < length (events st @ [e])")
  case True
  with add_event_events [OF assms]
  have "events st' = drop (summarize_last_n_events st) (events st @ [e])" by simp
  with True show ?thesis by auto
next
  case False
  with add_event_events [OF assms] have "events st' = drop 0 (events st @ [e])" by simp
  then show ?thesis by blast
qed

subsection \<open>Bounded worker loop: the final answer on the first step\<close>

lemma final_answer_call_name:
  "final_answer_call reply = Some tc \<Longrightarrow> call_name tc = ''return_final_answer''"
  by (auto simp: final_answer_call_def find_Some_iff)

lemma final_answer_carried:
  assumes "object_or_empty env fn_args"
  shows "final_answer env fn_args = Inr (carried_answer env fn_args)"
proof (cases "json_loads env fn_args")
  case (Inl e)
  then show ?thesis by (simp add: final_answer_def carried_answer_def)
next
  case (Inr p)
  with assms show ?thesis
    by (cases p) (auto simp: final_answer_def carried_answer_def object_or_empty_def
        split: option.splits)
qed

lemma store_events_summaries: "store_events env st w = Inr w' \<Longrightarrow> summaries w' = summaries w"
  by (auto simp: store_events_def now_def context_store_store_def split: option.splits)

text \<open>The summarizer is called by an append only when the append takes the log over its limit.\<close>

lemma add_event_summaries:
  assumes "add_event env st w e = Inr (st', w')"
  shows "\<exists>new. summaries w' = summaries w @ new \<and> length new \<le> 1
           \<and> (length (events st) < len_limit st \<longleftrightarrow> new = [])"
proof -
  from assms obtain st1 w1 where
    a: "auto_store env (st\<lparr>events := events st @ [e]\<rparr>) w = Inr (st1, w1)" and
    c: "compact env (track_recent st1 e) w1 = Inr (st', w')"
    by (rule add_event_split)
  have s1: "summaries w1 = summaries w"
    using a by (auto simp: auto_store_def bind_exn_def Let_def split: if_splits sum.splits
        dest: store_events_summaries)
  have f: "events st1 = events st @ [e]" "len_limit st1 = len_limit st"
    using auto_store_fields [OF a] by simp_all
  show ?thesis
  proof (cases "len_limit st < length (events st @ [e])")
    case True
    with c f track_recent_fields [of st1 e] obtain x where "summaries w' = summaries w1 @ [x]"
      by (auto simp: compact_def bind_exn_def split: sum.splits)
    with s1 True have "summaries w' = summaries w @ [x] \<and> length [x] \<le> 1
           \<and> (length (events st) < len_limit st \<longleftrightarrow> [x] = [])"
      by simp
    then show ?thesis by blast
  next
    case False
    with c f track_recent_fields [of st1 e] have "summaries w' = summaries w1"
      by (auto simp: compact_def)
    with s1 False show ?thesis by simp
  qed
qed

text \<open>
  Claim C5, as amended. Let the provider's reply to a step of the loop contain a
  final-answer call whose arguments do not decode to a non-empty value other than an object,
  and let the store and the summarizer not fail while the reply and the result are
  recorded. Then the loop returns in this step the answer that the call carries. The trace
  gains this one completion; no tool call is dispatched and no provider session is opened,
  whatever other tool calls the reply holds; the summarizer makes a model call, and then one
  or two, exactly when the log with the two new events is not within \<open>len_limit\<close>. The
  log gains the assistant message cut down to the final-answer call and the result
  \<open>SEND SUCCESSFULLY\<close> for it (the log being an end piece of that, and all of it while it
  is within \<open>len_limit\<close>), and the last thing done is the flush of this log: a tracker
  with a namespace has sent the store its final events and summary.
\<close>

theorem worker_loop_final_answer:
  assumes "steps < max_steps agent"
    and "messages st = Inr msgs"
    and "create_completion env (tick w) (system_message # msgs) (tools agent) = Inr reply"
    and "final_answer_call reply = Some tc"
    and "object_or_empty env (arguments tc)"
    and "add_event env st
           (w\<lparr>tick := Suc (tick w),
              completions := completions w @ [(system_message # msgs, reply)]\<rparr>)
           (AssistantEvent (AssistantMessage (content reply) (Some [tc]) None)) = Inr (st1, w2)"
    and "add_event env st1 w2
           (ToolCallResult (call_id tc) (Some ''return_final_answer'') ''SEND SUCCESSFULLY'')
           = Inr (st2, w3)"
    and "store_events env st2 w3 = Inr w4"
  shows "worker_loop env agent system_message steps st w
           = Inr (Some (carried_answer env (arguments tc)), st2, w4)
     \<and> completions w4 = completions w @ [(system_message # msgs, reply)]
     \<and> dispatched w4 = dispatched w \<and> sessions w4 = sessions w
     \<and> (\<exists>new. summaries w4 = summaries w @ new \<and> length new \<le> 2
            \<and> (length (events st) + 2 \<le> len_limit st \<longleftrightarrow> new = []))
     \<and> (\<exists>k. events st2 =
              drop k (events st @
                [AssistantEvent (AssistantMessage (content reply) (Some [tc]) None),
                 ToolCallResult (call_id tc) (Some ''return_final_answer'') ''SEND SUCCESSFULLY''])
            \<and> (length (events st) + 2 \<le> len_limit st \<longrightarrow> k = 0))
     \<and> (namespace st2 = Some ns \<longrightarrow>
          stored w4 = stored w3 @
            [\<lparr> context_id = ns @ ''_'' @ str_float env (time_time env (tick w3)),
               data = AgentStateData (events st2) (summary st2),
               context_namespace = ns,
               context_type = ''AgentState'' \<rparr>])"
proof -
  let ?w1 = "w\<lparr>tick := Suc (tick w),
               completions := completions w @ [(system_message # msgs, reply)]\<rparr>"
  let ?a = "AssistantEvent (AssistantMessage (content reply) (Some [tc]) None)"
  let ?r = "ToolCallResult (call_id tc) (Some ''return_final_answer'') ''SEND SUCCESSFULLY''"
  have n: "call_name tc = ''return_final_answer''"
    using assms(4) by (rule final_answer_call_name)
  have rr: "recorded_reply reply = AssistantMessage (content reply) (Some [tc]) None"
    using assms(4) by (simp add: recorded_reply_def)
  have c: "complete env w (system_message # msgs) (tools agent) = Inr (reply, ?w1)"
    using assms(3) by (simp add: complete_def bind_exn_def)
  have fa: "final_answer env (arguments tc) = Inr (carried_answer env (arguments tc))"
    using assms(5) by (rule final_answer_carried)
  have t: "worker_tool_calls env st1 w2 [tc] []
             = Inr (Returned (carried_answer env (arguments tc)) st2 w4)"
    using n fa assms(7,8) by (simp add: bind_exn_def)
  have run: "worker_loop env agent system_message steps st w
               = Inr (Some (carried_answer env (arguments tc)), st2, w4)"
    using assms(1,2,6) c rr t
    by (subst worker_loop.simps) (simp add: bind_exn_def calls_of_def)
  have s1: "same_calls ?w1 w2" using assms(6) by (rule add_event_same_calls)
  have s2: "same_calls w2 w3" using assms(7) by (rule add_event_same_calls)
  have s3: "same_calls w3 w4" using assms(8) by (rule store_events_same_calls)
  have tr: "completions w4 = completions w @ [(system_message # msgs, reply)]
            \<and> dispatched w4 = dispatched w \<and> sessions w4 = sessions w"
    using s1 s2 s3 by (simp add: same_calls_def)
  obtain k1 where k1: "events st1 = drop k1 (events st @ [?a])"
      "length (events st) < len_limit st \<longrightarrow> k1 = 0"
    using add_event_drop [OF assms(6)] by blast
  obtain k2 where k2: "events st2 = drop k2 (events st1 @ [?r])"
      "length (events st1) < len_limit st1 \<longrightarrow> k2 = 0"
    using add_event_drop [OF assms(7)] by blast
  have l1: "len_limit st1 = len_limit st" using add_event_fields [OF assms(6)] by simp
  obtain n1 where n1: "summaries w2 = summaries ?w1 @ n1" "length n1 \<le> 1"
      "length (events st) < len_limit st \<longleftrightarrow> n1 = []"
    using add_event_summaries [OF assms(6)] by blast
  obtain n2 where n2: "summaries w3 = summaries w2 @ n2" "length n2 \<le> 1"
      "length (events st1) < len_limit st1 \<longleftrightarrow> n2 = []"
    using add_event_summaries [OF assms(7)] by blast
  have su: "\<exists>new. summaries w4 = summaries w @ new \<and> length new \<le> 2
            \<and> (length (events st) + 2 \<le> len_limit st \<longleftrightarrow> new = [])"
  proof -
    have "summaries w4 = summaries w @ (n1 @ n2)"
      using n1(1) n2(1) store_events_summaries [OF assms(8)] by simp
    moreover have "length (n1 @ n2) \<le> 2" using n1(2) n2(2) by simp
    moreover have "n1 @ n2 = []" if room: "length (events st) + 2 \<le> len_limit st"
    proof -
      from room k1(2) have "k1 = 0" by simp
      with k1(1) have "length (events st1) = Suc (length (events st))" by simp
      with room l1 n2(3) have "n2 = []" by simp
      moreover from room n1(3) have "n1 = []" by simp
      ultimately show ?thesis by simp
    qed
    moreover have "n1 @ n2 \<noteq> []" if over: "\<not> length (events st) + 2 \<le> len_limit st"
    proof (cases "length (events st) < len_limit st")
      case True
      with k1(2) have "k1 = 0" by simp
      with k1(1) have "length (events st1) = Suc (length (events st))" by simp
      with over l1 have "\<not> length (events st1) < len_limit st1" by simp
      with n2(3) show ?thesis by simp
    next
      case False
      with n1(3) show ?thesis by simp
    qed
    ultimately show ?thesis by blast
  qed
  have ev: "\<exists>k. events st2 = drop k (events st @ [?a, ?r])
              \<and> (length (events st) + 2 \<le> len_limit st \<longrightarrow> k = 0)"
  proof (cases "k1 \<le> length (events st @ [?a])")
    case True
    then have "events st2 = drop (k2 + k1) ((events st @ [?a]) @ [?r])"
      using k1 k2 by (simp only: drop_drop_append)
    then have "events st2 = drop (k2 + k1) (events st @ [?a, ?r])" by simp
    moreover have "length (events st) + 2 \<le> len_limit st \<longrightarrow> k2 + k1 = 0"
      using k1 k2 l1 by auto
    ultimately show ?thesis by blast
  next
    case False
    then have e1: "events st1 = []" using k1 by simp
    have "length (events st) + 2 \<le> len_limit st \<longrightarrow> k1 = 0" using k1 by auto
    with False have nl: "\<not> length (events st) + 2 \<le> len_limit st" by auto
    show ?thesis
    proof (cases k2)
      case 0
      then have "events st2 = drop (Suc (length (events st))) (events st @ [?a, ?r])"
        using k2 e1 by simp
      with nl show ?thesis by blast
    next
      case (Suc j)
      then have "events st2 = drop (length (events st) + 2) (events st @ [?a, ?r])"
        using k2 e1 by simp
      with nl show ?thesis by blast
    qed
  qed
  have fl: "namespace st2 = Some ns \<longrightarrow>
          stored w4 = stored w3 @
            [\<lparr> context_id = ns @ ''_'' @ str_float env (time_time env (tick w3)),
               data = AgentStateData (events st2) (summary st2),
               context_namespace = ns,
               context_type = ''AgentState'' \<rparr>]"
    using assms(8) store_events_sends by blast
  show ?thesis using run tr su ev fl by simp
qed

theorem worker_loop_final_answer_witness:
  "worker_loop answering_env example_worker (PStr ''system'') 0
     ((StateTracker_init (Some ''memory-mail''))\<lparr>events := [UserMessage ''task'']\<rparr>) world0 =
   Inr (Some (PStr ''42''),
        (StateTracker_init (Some ''memory-mail''))
          \<lparr>events := [UserMessage ''task'',
             AssistantEvent (AssistantMessage (Some ''Done.'')
               (Some [ToolCall ''call_2'' ''return_final_answer'' ''{\"answer\": \"42\"}'']) None),
             ToolCallResult ''call_2'' (Some ''return_final_answer'') ''SEND SUCCESSFULLY''],
           auto_store_counter := 2\<rparr>,
        world0\<lparr>tick := 3,
          completions :=
            [([PStr ''system'', PDict [(''role'', PStr ''user''), (''content'', PStr ''task'')]],
              AssistantMessage (Some ''Done.'')
                (Some [ToolCall ''call_1'' ''mail__send'' ''{}'',
                       ToolCall ''call_2'' ''return_final_answer'' ''{\"answer\": \"42\"}''])
                (Some ''tool_calls''))],
          stored :=
            [\<lparr> context_id = ''memory-mail_1700000001.0'',
               data = AgentStateData
                 [UserMessage ''task'',
                  AssistantEvent (AssistantMessage (Some ''Done.'')
                    (Some [ToolCall ''call_2'' ''return_final_answer'' ''{\"answer\": \"42\"}''])
                    None),
                  ToolCallResult ''call_2'' (Some ''return_final_answer'') ''SEND SUCCESSFULLY'']
                 None,
               context_namespace = ''memory-mail'',
               context_type = ''AgentState'' \<rparr>]\<rparr>)"
proof -
  let ?st = "(StateTracker_init (Some ''memory-mail''))\<lparr>events := [UserMessage ''task'']\<rparr>"
  let ?tc = "ToolCall ''call_2'' ''return_final_answer'' ''{\"answer\": \"42\"}''"
  let ?reply = "AssistantMessage (Some ''Done.'')
        (Some [ToolCall ''call_1'' ''mail__send'' ''{}'', ?tc]) (Some ''tool_calls'')"
  let ?msgs = "[PDict [(''role'', PStr ''user''), (''content'', PStr ''task'')]]"
  let ?w1 = "world0\<lparr>tick := 1, completions := [(PStr ''system'' # ?msgs, ?reply)]\<rparr>"
  let ?es = "[UserMessage ''task'',
             AssistantEvent (AssistantMessage (Some ''Done.'') (Some [?tc]) None),
             ToolCallResult ''call_2'' (Some ''return_final_answer'') ''SEND SUCCESSFULLY'']"
  let ?st1 = "(StateTracker_init (Some ''memory-mail''))
        \<lparr>events := [UserMessage ''task'',
             AssistantEvent (AssistantMessage (Some ''Done.'') (Some [?tc]) None)],
         auto_store_counter := 1\<rparr>"
  let ?st2 = "(StateTracker_init (Some ''memory-mail''))
        \<lparr>events := ?es, auto_store_counter := 2\<rparr>"
  let ?w4 = "world0\<lparr>tick := 3, completions := [(PStr ''system'' # ?msgs, ?reply)],
          stored := [\<lparr> context_id = ''memory-mail_1700000001.0'',
                       data = AgentStateData ?es None,
                       context_namespace = ''memory-mail'',
                       context_type = ''AgentState'' \<rparr>]\<rparr>"
  have 1: "(0::nat) < max_steps example_worker" by (simp add: example_worker_def)
  have 2: "messages ?st = Inr ?msgs" by (simp add: messages_def StateTracker_init_def)
  have 3: "create_completion answering_env (tick world0) (PStr ''system'' # ?msgs)
             (tools example_worker) = Inr ?reply"
    by (simp add: answering_env_def)
  have 4: "final_answer_call ?reply = Some ?tc"
    by (simp add: final_answer_call_def calls_of_def)
  have 5: "object_or_empty answering_env (arguments ?tc)"
    by (simp add: object_or_empty_def answering_env_def calm_env_def)
  have ca: "carried_answer answering_env (arguments ?tc) = PStr ''42''"
    by (simp add: carried_answer_def answering_env_def calm_env_def)
  have 8: "add_event answering_env ?st
             (world0\<lparr>tick := Suc (tick world0),
                completions := completions world0 @ [(PStr ''system'' # ?msgs, ?reply)]\<rparr>)
             (AssistantEvent (AssistantMessage (content ?reply) (Some [?tc]) None))
           = Inr (?st1, ?w1)"
    by (simp add: add_event_def auto_store_def compact_def track_recent_def bind_exn_def
        StateTracker_init_def world0_def)
  have 9: "add_event answering_env ?st1 ?w1
             (ToolCallResult (call_id ?tc) (Some ''return_final_answer'') ''SEND SUCCESSFULLY'')
           = Inr (?st2, ?w1)"
    by (simp add: add_event_def auto_store_def compact_def track_recent_def bind_exn_def
        StateTracker_init_def world0_def)
  have 10: "store_events answering_env ?st2 ?w1 = Inr ?w4"
    by (simp add: store_events_def now_def context_store_store_def StateTracker_init_def
        answering_env_def calm_env_def world0_def digits.simps)
  show ?thesis
    using worker_loop_final_answer [OF 1 2 3 4 5 8 9 10, of "''memory-mail''"] ca by simp
qed

lemma map_exn_replicate:
  "f x = Inr y \<Longrightarrow> map_exn f (replicate n x) = Inr (replicate n y)"
  by (induction n) simp_all

text \<open>
  The claim as stated fails in two ways. On a log of 99 messages the answer is returned,
  and recording the result takes the log to 101 events, so the summarizer has made a model
  call besides the one completion. On arguments that decode to a list the loop raises and
  returns nothing.
\<close>

theorem worker_loop_final_answer_counterexample:
  "worker_loop answering_env example_worker (PStr ''system'') 0 long_tracker world0 =
     Inr (Some (PStr ''42''),
          (StateTracker_init (Some ''memory-mail''))
            \<lparr>events := replicate 39 (UserMessage ''earlier'') @
               [AssistantEvent (AssistantMessage (Some ''Done.'')
                  (Some [ToolCall ''call_2'' ''return_final_answer'' ''{\"answer\": \"42\"}''])
                  None),
                ToolCallResult ''call_2'' (Some ''return_final_answer'') ''SEND SUCCESSFULLY''],
             summary := Some ''summary'',
             auto_store_counter := 2\<rparr>,
          world0\<lparr>tick := 4,
            completions :=
              [(PStr ''system'' #
                  replicate 99 (PDict [(''role'', PStr ''user''), (''content'', PStr ''earlier'')]),
                AssistantMessage (Some ''Done.'')
                  (Some [ToolCall ''call_1'' ''mail__send'' ''{}'',
                         ToolCall ''call_2'' ''return_final_answer'' ''{\"answer\": \"42\"}''])
                  (Some ''tool_calls''))],
            summaries := [(replicate 60 (UserMessage ''earlier''), None)],
            stored :=
              [\<lparr> context_id = ''memory-mail_1700000002.0'',
                 data = AgentStateData
                   (replicate 39 (UserMessage ''earlier'') @
                    [AssistantEvent (AssistantMessage (Some ''Done.'')
                       (Some [ToolCall ''call_2'' ''return_final_answer''
                                ''{\"answer\": \"42\"}''])
                       None),
                     ToolCallResult ''call_2'' (Some ''return_final_answer'')
                       ''SEND SUCCESSFULLY''])
                   (Some ''summary''),
                 context_namespace = ''memory-mail'',
                 context_type = ''AgentState'' \<rparr>]\<rparr>)
   \<and> worker_loop list_answer_env example_worker (PStr ''system'') 0
       ((StateTracker_init None)\<lparr>events := [UserMessage ''task'']\<rparr>) world0
     = Inl (AttributeError ''get'')"
proof -
  have a: "worker_loop answering_env example_worker (PStr ''system'') 0 long_tracker world0 =
     Inr (Some (PStr ''42''),
          (StateTracker_init (Some ''memory-mail''))
            \<lparr>events := replicate 39 (UserMessage ''earlier'') @
               [AssistantEvent (AssistantMessage (Some ''Done.'')
                  (Some [ToolCall ''call_2'' ''return_final_answer'' ''{\"answer\": \"42\"}''])
                  None),
                ToolCallResult ''call_2'' (Some ''return_final_answer'') ''SEND SUCCESSFULLY''],
             summary := Some ''summary'',
             auto_store_counter := 2\<rparr>,
          world0\<lparr>tick := 4,
            completions :=
              [(PStr ''system'' #
                  replicate 99 (PDict [(''role'', PStr ''user''), (''content'', PStr ''earlier'')]),
                AssistantMessage (Some ''Done.'')
                  (Some [ToolCall ''call_1'' ''mail__send'' ''{}'',
                         ToolCall ''call_2'' ''return_final_answer'' ''{\"answer\": \"42\"}''])
                  (Some ''tool_calls''))],
            summaries := [(replicate 60 (UserMessage ''earlier''), None)],
            stored :=
              [\<lparr> context_id = ''memory-mail_1700000002.0'',
                 data = AgentStateData
                   (replicate 39 (UserMessage ''earlier'') @
                    [AssistantEvent (AssistantMessage (Some ''Done.'')
                       (Some [ToolCall ''call_2'' ''return_final_answer''
                                ''{\"answer\": \"42\"}''])
                       None),
                     ToolCallResult ''call_2'' (Some ''return_final_answer'')
                       ''SEND SUCCESSFULLY''])
                   (Some ''summary''),
                 context_namespace = ''memory-mail'',
                 context_type = ''AgentState'' \<rparr>]\<rparr>)"
    by (subst worker_loop.simps)
       (simp add: messages_def map_exn_replicate example_worker_def answering_env_def
          calm_env_def world0_def long_tracker_def StateTracker_init_def complete_def bind_exn_def Let_def
          recorded_reply_def final_answer_call_def calls_of_def final_answer_def
          add_event_def auto_store_def compact_def track_recent_def store_events_def
          now_def context_store_store_def digits.simps)
  have b: "worker_loop list_answer_env example_worker (PStr ''system'') 0
       ((StateTracker_init None)\<lparr>events := [UserMessage ''task'']\<rparr>) world0
     = Inl (AttributeError ''get'')"
    by (subst worker_loop.simps)
       (simp add: messages_def example_worker_def list_answer_env_def calm_env_def world0_def
          StateTracker_init_def complete_def bind_exn_def Let_def
          recorded_reply_def final_answer_call_def calls_of_def final_answer_def
          add_event_def auto_store_def compact_def track_recent_def)
  show ?thesis using a b by simp
qed

subsection \<open>Bounded worker loop: the step ceiling\<close>

lemma call_openai_tool_completions:
  "call_openai_tool env tm w tc = Inr (r, w') \<Longrightarrow> completions w' = completions w"
  by (auto simp: call_openai_tool_def ToolManager_call_def with_timeout_def call_body_def
      wait_for_def bind_exn_def Let_def
      split: option.splits sum.splits if_splits timed.splits session_end.splits prod.splits)

lemma gather_completions:
  "gather env tm w tcs = Inr (rs, w') \<Longrightarrow> completions w' = completions w"
proof (induction tcs arbitrary: w rs)
  case Nil
  then show ?case by simp
next
  case (Cons tc tcs)
  from Cons.prems obtain r w1 rs' where
    c: "call_openai_tool env tm w tc = Inr (r, w1)" and g: "gather env tm w1 tcs = Inr (rs', w')"
    by (auto simp: bind_exn_def split: sum.splits)
  show ?case using call_openai_tool_completions [OF c] Cons.IH [OF g] by simp
qed

lemma worker_tool_calls_Returned:
  "worker_tool_calls env st w tcs tasks = Inr (Returned a st' w') \<Longrightarrow>
     list_ex (\<lambda>tc. call_name tc = ''return_final_answer'') tcs
     \<and> completions w' = completions w"
proof (induction tcs arbitrary: tasks)
  case Nil
  then show ?case by simp
next
  case (Cons tc tcs)
  show ?case
  proof (cases "call_name tc = ''return_final_answer''")
    case True
    with Cons.prems obtain st1 w1 where
      a: "add_event env st w (ToolCallResult (call_id tc) (Some (call_name tc)) ''SEND SUCCESSFULLY'')
            = Inr (st1, w1)" and s: "store_events env st1 w1 = Inr w'"
      by (auto simp: bind_exn_def split: sum.splits)
    have "same_calls w w'"
      using add_event_same_calls [OF a] store_events_same_calls [OF s] by (rule same_calls_trans)
    with True show ?thesis by (simp add: same_calls_def)
  next
    case False
    with Cons.prems Cons.IH [of "tasks @ [tc]"] show ?thesis by simp
  qed
qed

lemma recorded_reply_no_final_answer:
  assumes "final_answer_call reply = None"
  shows "\<not> list_ex (\<lambda>tc. call_name tc = ''return_final_answer'')
            (calls_of (tool_calls (recorded_reply reply)))"
proof -
  have "recorded_reply reply = reply" using assms by (simp add: recorded_reply_def)
  then show ?thesis
    using assms by (auto simp: final_answer_call_def find_None_iff list_ex_iff)
qed

text \<open>
  The loop only adds to the list of completions, and it returns from inside only in a step
  whose reply holds a final-answer call.
\<close>

lemma worker_loop_log:
  "worker_loop env agent system_message steps st w = Inr (r, st', w') \<Longrightarrow>
     \<exists>new. completions w' = completions w @ new
        \<and> (r \<noteq> None \<longrightarrow> list_ex (\<lambda>(msgs, reply). final_answer_call reply \<noteq> None) new)"
proof (induction "max_steps agent - steps" arbitrary: steps st w)
  case 0
  then have "\<not> steps < max_steps agent" by simp
  with "0.prems" have "r = None" "w' = w"
    by (simp_all add: worker_loop.simps)
  then show ?case by simp
next
  case (Suc n)
  then have lt: "steps < max_steps agent" by simp
  have n: "n = max_steps agent - Suc steps" using Suc.hyps(2) by simp
  from Suc.prems lt obtain msgs reply w1 st1 w2 where
    m: "messages st = Inr msgs" and
    c: "complete env w (system_message # msgs) (tools agent) = Inr (reply, w1)" and
    a: "add_event env st w1 (AssistantEvent (recorded_reply reply)) = Inr (st1, w2)" and
    rest: "(if calls_of (tool_calls (recorded_reply reply)) \<noteq> [] then
          bind_exn (worker_tool_calls env st1 w2 (calls_of (tool_calls (recorded_reply reply))) [])
            (\<lambda>r. case r of
               Returned answer st2 w3 \<Rightarrow> Inr (Some answer, st2, w3)
             | Tasks tool_call_tasks \<Rightarrow>
                 if tool_call_tasks \<noteq> [] then
                   bind_exn (gather env (tool_manager agent) w2 tool_call_tasks)
                     (\<lambda>(tool_result_msgs, w3).
                   bind_exn (add_events env st1 w3 tool_result_msgs)
                     (\<lambda>(st2, w4).
                   worker_loop env agent system_message (Suc steps) st2 w4))
                 else worker_loop env agent system_message (Suc steps) st1 w2)
        else worker_loop env agent system_message (Suc steps) st1 w2) = Inr (r, st', w')"
    by (subst (asm) worker_loop.simps)
       (auto simp: bind_exn_def Let_def split: sum.splits)
  have c1: "completions w1 = completions w @ [(system_message # msgs, reply)]"
    using c by (auto simp: complete_def bind_exn_def split: sum.splits)
  have c2: "completions w2 = completions w @ [(system_message # msgs, reply)]"
    using add_event_same_calls [OF a] c1 by (simp add: same_calls_def)
  have later: "\<exists>new. completions w' = completions w @ new
        \<and> (r \<noteq> None \<longrightarrow> list_ex (\<lambda>(msgs, reply). final_answer_call reply \<noteq> None) new)"
    if "worker_loop env agent system_message (Suc steps) st2 w4 = Inr (r, st', w')"
      and "completions w4 = completions w2" for st2 w4
  proof -
    from Suc.hyps(1) [OF n that(1)] obtain new where
      "completions w' = completions w4 @ new"
      "r \<noteq> None \<longrightarrow> list_ex (\<lambda>(msgs, reply). final_answer_call reply \<noteq> None) new"
      by blast
    then have "completions w' = completions w @ ((system_message # msgs, reply) # new)
      \<and> (r \<noteq> None \<longrightarrow>
           list_ex (\<lambda>(msgs, reply). final_answer_call reply \<noteq> None)
             ((system_message # msgs, reply) # new))"
      using that(2) c2 by simp
    then show ?thesis by blast
  qed
  show ?case
  proof (cases "calls_of (tool_calls (recorded_reply reply)) \<noteq> []")
    case False
    with rest have "worker_loop env agent system_message (Suc steps) st1 w2 = Inr (r, st', w')"
      by simp
    then show ?thesis by (rule later) simp
  next
    case True
    with rest obtain x where
      t: "worker_tool_calls env st1 w2 (calls_of (tool_calls (recorded_reply reply))) [] = Inr x"
      and x: "(case x of
               Returned answer st2 w3 \<Rightarrow> Inr (Some answer, st2, w3)
             | Tasks tool_call_tasks \<Rightarrow>
                 if tool_call_tasks \<noteq> [] then
                   bind_exn (gather env (tool_manager agent) w2 tool_call_tasks)
                     (\<lambda>(tool_result_msgs, w3).
                   bind_exn (add_events env st1 w3 tool_result_msgs)
                     (\<lambda>(st2, w4).
                   worker_loop env agent system_message (Suc steps) st2 w4))
                 else worker_loop env agent system_message (Suc steps) st1 w2) = Inr (r, st', w')"
      by (auto simp: bind_exn_def split: sum.splits)
    show ?thesis
    proof (cases x)
      case (Returned answer st2 w3)
      with x have e: "r = Some answer" "w' = w3" by simp_all
      from t Returned have
        "list_ex (\<lambda>tc. call_name tc = ''return_final_answer'')
           (calls_of (tool_calls (recorded_reply reply)))"
        and c3: "completions w3 = completions w2"
        using worker_tool_calls_Returned by blast+
      then have "final_answer_call reply \<noteq> None"
        using recorded_reply_no_final_answer by blast
      with e c2 c3 have "completions w' = completions w @ [(system_message # msgs, reply)]
        \<and> (r \<noteq> None \<longrightarrow>
           list_ex (\<lambda>(msgs, reply). final_answer_call reply \<noteq> None)
             [(system_message # msgs, reply)])"
        by simp
      then show ?thesis by blast
    next
      case (Tasks tool_call_tasks)
      show ?thesis
      proof (cases "tool_call_tasks \<noteq> []")
        case False
        with x Tasks have
          "worker_loop env agent system_message (Suc steps) st1 w2 = Inr (r, st', w')" by simp
        then show ?thesis by (rule later) simp
      next
        case True
        with x Tasks obtain rs w3 st2 w4 where
          g: "gather env (tool_manager agent) w2 tool_call_tasks = Inr (rs, w3)" and
          ae: "add_events env st1 w3 rs = Inr (st2, w4)" and
          l: "worker_loop env agent system_message (Suc steps) st2 w4 = Inr (r, st', w')"
          by (auto simp: bind_exn_def split: sum.splits)
        have "completions w4 = completions w2"
          using gather_completions [OF g] add_events_same_calls [OF ae]
          by (simp add: same_calls_def)
        with l show ?thesis by (rule later)
      qed
    qed
  qed
qed

lemma ensure_tools_completions:
  "ensure_tools env agent w = Inr (agent', w') \<Longrightarrow> completions w' = completions w"
  by (auto simp: ensure_tools_def list_openai_tools_def bind_exn_def Let_def
      split: option.splits sum.splits)

lemma retrieve_history_completions:
  "retrieve_history env st w = Inr (st', w') \<Longrightarrow> completions w' = completions w"
  by (auto simp: retrieve_history_def bind_exn_def Let_def
      split: option.splits sum.splits if_splits context_data.splits)

lemma map_exn_snoc:
  "map_exn f (xs @ [x]) = Inr ys \<Longrightarrow>
     \<exists>ys' y. map_exn f xs = Inr ys' \<and> f x = Inr y \<and> ys = ys' @ [y]"
  by (induction xs arbitrary: ys) (auto split: sum.splits)

text \<open>What the search of lines 148 to 153 finds, read off the log.\<close>

lemma last_assistant_newest:
  "map_exn to_openai_format es = Inr msgs \<Longrightarrow> last_assistant (rev msgs) = Inr c \<Longrightarrow>
     (if truthy c then c else PStr []) = PStr (newest_assistant_text es)"
proof (induction es arbitrary: msgs rule: rev_induct)
  case Nil
  then show ?case by (auto simp: newest_assistant_text_def)
next
  case (snoc e es)
  from map_exn_snoc [OF snoc.prems(1)] obtain ms m where
    ms: "map_exn to_openai_format es = Inr ms" and m: "to_openai_format e = Inr m"
    and msgs: "msgs = ms @ [m]"
    by blast
  show ?case
  proof (cases e)
    case (UserMessage s)
    with m msgs snoc.prems(2) have "last_assistant (rev ms) = Inr c" by auto
    from snoc.IH [OF ms this] UserMessage show ?thesis
      by (simp add: newest_assistant_text_def)
  next
    case (ToolCallResult i n r)
    with m msgs snoc.prems(2) have "last_assistant (rev ms) = Inr c" by auto
    from snoc.IH [OF ms this] ToolCallResult show ?thesis
      by (simp add: newest_assistant_text_def)
  next
    case (AssistantEvent a)
    with m msgs snoc.prems(2) have "c = opt_str (content a)" by auto
    with AssistantEvent show ?thesis
      by (auto simp: newest_assistant_text_def opt_str_def split: option.splits)
  next
    case (ToolCallEvent tc)
    with m msgs snoc.prems(2) show ?thesis
      by (auto simp: tool_call_to_openai_format_def)
  next
    case (GenericEvent t d)
    with m show ?thesis by simp
  next
    case (SendToUser s)
    with m show ?thesis by simp
  next
    case (Wait s)
    with m show ?thesis by simp
  qed
qed

text \<open>
  Claim C7, as amended. When \<open>WorkerAgent.call\<close> returns and none of the replies it
  received holds a final-answer call, the value returned is the text of the newest
  assistant message of the live log, and the empty string when that message has no text or
  the log has no assistant message.
\<close>

theorem worker_call_step_ceiling:
  assumes "WorkerAgent_call env agent w request agent_name = Inr (answer, agent', st', w')"
    and "list_all (\<lambda>(msgs, reply). final_answer_call reply = None)
           (drop (length (completions w)) (completions w'))"
  shows "answer = PStr (newest_assistant_text (events st'))"
proof -
  from assms(1) obtain agent1 w1 st0 w2 st1 w4 returned st2 w5 where
    e: "ensure_tools env agent w = Inr (agent1, w1)" and
    h: "retrieve_history env (WorkerStateTracker_init agent_name) w1 = Inr (st0, w2)" and
    a: "add_event env st0 (w2\<lparr>tick := Suc (tick w2)\<rparr>)
          (UserMessage (request @ ''\<newline>\<newline>Current time: '' @ utc_now env (tick w2)
                          @ '' at UTC timezone'')) = Inr (st1, w4)" and
    l: "worker_loop env agent1
          (PDict [(''role'', PStr ''system''),
                  (''content'', PStr (WORKER_SYSTEM_PROMPT env @
                     (case summary st0 of None \<Rightarrow> []
                      | Some past_summary \<Rightarrow>
                          if past_summary = [] then []
                          else ''\<newline>\<newline>The past summary is: '' @ past_summary)))])
          0 st1 w4 = Inr (returned, st2, w5)" and
    f: "(case returned of
            Some answer \<Rightarrow> Inr (answer, agent1, st2, w5)
          | None \<Rightarrow>
              bind_exn (messages st2)
                (\<lambda>msgs.
              bind_exn (last_assistant (rev msgs))
                (\<lambda>last_assistant_content.
                   Inr (if truthy last_assistant_content then last_assistant_content
                        else PStr [],
                        agent1, st2, w5)))) = Inr (answer, agent', st', w')"
    by (auto simp: WorkerAgent_call_def bind_exn_def Let_def split: sum.splits)
  have c4: "completions w4 = completions w"
    using ensure_tools_completions [OF e] retrieve_history_completions [OF h]
      add_event_same_calls [OF a]
    by (simp add: same_calls_def)
  from worker_loop_log [OF l] obtain new where
    new: "completions w5 = completions w4 @ new"
      "returned \<noteq> None \<longrightarrow> list_ex (\<lambda>(msgs, reply). final_answer_call reply \<noteq> None) new"
    by blast
  have w5: "w' = w5" using f by (auto simp: bind_exn_def split: option.splits sum.splits)
  have "drop (length (completions w)) (completions w') = new"
    using new(1) c4 w5 by simp
  with assms(2) have "list_all (\<lambda>(msgs, reply). final_answer_call reply = None) new" by simp
  then have "\<not> list_ex (\<lambda>(msgs, reply). final_answer_call reply \<noteq> None) new"
    by (auto simp: list_all_iff list_ex_iff)
  with new(2) have "returned = None" by blast
  with f obtain msgs c where
    m: "messages st2 = Inr msgs" and la: "last_assistant (rev msgs) = Inr c" and
    r: "answer = (if truthy c then c else PStr [])" "st' = st2"
    by (auto simp: bind_exn_def split: sum.splits)
  from m have "map_exn to_openai_format (events st2) = Inr msgs" by (simp add: messages_def)
  from last_assistant_newest [OF this la] r show ?thesis by simp
qed


theorem worker_call_step_ceiling_witness:
  "\<exists>agent' st' w'.
     WorkerAgent_call talking_env example_worker world0 ''task'' None
       = Inr (PStr ''Working on it'', agent', st', w')
     \<and> list_all (\<lambda>(msgs, reply). final_answer_call reply = None)
           (drop (length (completions world0)) (completions w'))
     \<and> length (completions w') = 10
     \<and> PStr ''Working on it'' = PStr (newest_assistant_text (events st'))"
proof -
  have run: "case WorkerAgent_call talking_env example_worker world0 ''task'' None of
               Inl e \<Rightarrow> False
             | Inr (answer, agent', st', w') \<Rightarrow>
                 answer = PStr ''Working on it''
                 \<and> list_all (\<lambda>(msgs, reply). final_answer_call reply = None)
                      (drop (length (completions world0)) (completions w'))
                 \<and> length (completions w') = 10"
    by (simp add: WorkerAgent_call_def example_worker_def talking_env_def calm_env_def
        world0_def example_manager_def ensure_tools_def retrieve_history_def
        WorkerStateTracker_init_def StateTracker_init_def add_event_def auto_store_def
        store_events_def compact_def track_recent_def bind_exn_def Let_def complete_def
        messages_def opt_str_def recorded_reply_def final_answer_call_def calls_of_def
        worker_loop.simps)
  then obtain agent' st' w' where
    r: "WorkerAgent_call talking_env example_worker world0 ''task'' None
          = Inr (PStr ''Working on it'', agent', st', w')"
    and n: "list_all (\<lambda>(msgs, reply). final_answer_call reply = None)
              (drop (length (completions world0)) (completions w'))"
    and c: "length (completions w') = 10"
    by (auto split: sum.splits)
  from worker_call_step_ceiling [OF r n] r n c show ?thesis by blast
qed

text \<open>
  The claim as stated fails. With a provider that says \<open>Working on it\<close> on nine steps and
  on the tenth only asks for a tool, no reply holds a final-answer call and the loop runs
  out of steps; the last assistant text produced in the run is \<open>Working on it\<close>, and the
  call returns the empty string.
\<close>

theorem worker_call_step_ceiling_counterexample:
  "returned_answer (WorkerAgent_call silent_end_env example_worker world0 ''task'' None)
     = Some (PStr [])
   \<and> replies_received (WorkerAgent_call silent_end_env example_worker world0 ''task'' None)
     = [AssistantMessage (Some ''Working on it'') None (Some ''stop''),
        AssistantMessage (Some ''Working on it'') None (Some ''stop''),
        AssistantMessage (Some ''Working on it'') None (Some ''stop''),
        AssistantMessage (Some ''Working on it'') None (Some ''stop''),
        AssistantMessage (Some ''Working on it'') None (Some ''stop''),
        AssistantMessage (Some ''Working on it'') None (Some ''stop''),
        AssistantMessage (Some ''Working on it'') None (Some ''stop''),
        AssistantMessage (Some ''Working on it'') None (Some ''stop''),
        AssistantMessage (Some ''Working on it'') None (Some ''stop''),
        AssistantMessage None (Some [ToolCall ''call_9'' ''nope'' ''{}'']) (Some ''tool_calls'')]"
  by (simp add: returned_answer_def replies_received_def
      WorkerAgent_call_def example_worker_def silent_end_env_def calm_env_def
      world0_def example_manager_def ensure_tools_def retrieve_history_def
      WorkerStateTracker_init_def StateTracker_init_def add_event_def auto_store_def
      store_events_def compact_def track_recent_def bind_exn_def Let_def complete_def
      messages_def opt_str_def recorded_reply_def final_answer_call_def calls_of_def
      call_openai_tool_def parse_arguments_def worker_loop.simps)

subsection \<open>Agent loop: what a step records and what it queues\<close>






















end
